theory Spec2Isabelle
  imports Complex_Main "HOL-Library.Product_Lexorder" "HOL-Library.Multiset"
begin

section \<open>JavaScript values, requests and responses\<close>

text \<open>
  The server is an Express application over a PostgreSQL pool. Request bodies, query
  parameters, store rows and response bodies are JSON values; a missing property reads
  as \<open>undefined\<close>. A number is kept as an integer: the handlers only test whether
  it is zero and pass it on.
\<close>

datatype jsval =
    JUndefined
  | JNull
  | JBool bool
  | JNum int
  | JStr string
  | JArr "jsval list"
  | JObj "(string \<times> jsval) list"

text \<open>JavaScript truthiness, as used by \<open>if (x)\<close>, \<open>!x\<close> and \<open>x || y\<close>.\<close>

fun truthy :: "jsval \<Rightarrow> bool" where
  "truthy JUndefined = False"
| "truthy JNull = False"
| "truthy (JBool b) = b"
| "truthy (JNum n) = (n \<noteq> 0)"
| "truthy (JStr s) = (s \<noteq> [])"
| "truthy (JArr xs) = True"
| "truthy (JObj kvs) = True"

text \<open>
  Property access \<open>obj.k\<close> on an object given by its fields in the order they were
  written: a missing property reads as \<open>undefined\<close>, and of two fields with the same
  name the later one counts.
\<close>

definition field :: "(string \<times> jsval) list \<Rightarrow> string \<Rightarrow> jsval" where
  "field obj k = (case map_of (rev obj) k of None \<Rightarrow> JUndefined | Some v \<Rightarrow> v)"

text \<open>\<open>xs[i]\<close>: \<open>undefined\<close> (here \<open>None\<close>) out of range.\<close>

definition at_index :: "'a list \<Rightarrow> nat \<Rightarrow> 'a option" where
  "at_index xs i = (if i < length xs then Some (xs ! i) else None)"

text \<open>
  \<open>s.split(' ')\<close>: cuts at every single space and keeps empty pieces, so the result
  is never empty.
\<close>

fun split_on :: "char \<Rightarrow> string \<Rightarrow> string list" where
  "split_on c [] = [[]]"
| "split_on c (x # xs) =
     (if x = c then [] # split_on c xs
      else (case split_on c xs of
              [] \<Rightarrow> [[x]]
            | w # ws \<Rightarrow> (x # w) # ws))"

record response =
  status :: nat
  json :: jsval

text \<open>\<open>res.status(n).json(v)\<close>; \<open>res.json(v)\<close> alone answers 200.\<close>

definition respond :: "nat \<Rightarrow> jsval \<Rightarrow> response" where
  "respond n v = \<lparr>status = n, json = v\<rparr>"

definition error_body :: "string \<Rightarrow> jsval" where
  "error_body m = JObj [(''error'', JStr m)]"

text \<open>
  The message literals of the source. Letters outside ASCII are written as their UTF-8
  bytes.
\<close>

definition a_tilde :: string where "a_tilde = [CHR 0xC3, CHR 0xA3]"
definition a_acute :: string where "a_acute = [CHR 0xC3, CHR 0xA1]"
definition o_acute :: string where "o_acute = [CHR 0xC3, CHR 0xB3]"
definition c_cedil :: string where "c_cedil = [CHR 0xC3, CHR 0xA7]"

definition msg_token_missing :: string where
  "msg_token_missing = ''Token n'' @ a_tilde @ ''o fornecido''"

definition msg_session_expired :: string where
  "msg_session_expired =
     ''Sess'' @ a_tilde @ ''o expirada. Fa'' @ c_cedil @ ''a login novamente.''"

definition msg_token_invalid :: string where
  "msg_token_invalid = ''Token inv'' @ a_acute @ ''lido ou expirado''"

definition msg_user_exists :: string where
  "msg_user_exists = ''Usu'' @ a_acute @ ''rio j'' @ a_acute @ '' existe''"

definition msg_user_created :: string where
  "msg_user_created = ''Usu'' @ a_acute @ ''rio criado com sucesso''"

definition msg_signup_failed :: string where
  "msg_signup_failed = ''Erro ao criar usu'' @ a_acute @ ''rio''"

definition msg_fields_required :: string where
  "msg_fields_required =
     ''Usu'' @ a_acute @ ''rio e senha s'' @ a_tilde @ ''o obrigat'' @ o_acute @ ''rios''"

definition msg_bad_credentials :: string where
  "msg_bad_credentials = ''Credenciais inv'' @ a_acute @ ''lidas''"

definition msg_config_error :: string where
  "msg_config_error = ''Erro interno de configura'' @ c_cedil @ a_tilde @ ''o''"

definition msg_login_failed :: string where
  "msg_login_failed = ''Erro no login''"

definition msg_user_registered :: string where
  "msg_user_registered = ''Usu'' @ a_acute @ ''rio cadastrado com sucesso''"

definition msg_novo_failed :: string where
  "msg_novo_failed = ''Erro ao cadastrar usu'' @ a_acute @ ''rio''"

definition msg_logout_done :: string where
  "msg_logout_done = ''Logout realizado com sucesso''"

definition msg_database_error :: string where
  "msg_database_error = ''Database error''"

definition msg_cliente_not_found :: string where
  "msg_cliente_not_found = ''Cliente n'' @ a_tilde @ ''o encontrado''"

definition msg_cliente_failed :: string where
  "msg_cliente_failed = ''Erro ao buscar cliente''"

definition msg_whatsapp_taken :: string where
  "msg_whatsapp_taken = ''WhatsApp j'' @ a_acute @ '' cadastrado''"

definition msg_cliente_create_failed :: string where
  "msg_cliente_create_failed = ''Erro ao criar cliente''"

definition msg_pagamentos_failed :: string where
  "msg_pagamentos_failed = ''Erro ao buscar pagamentos''"

definition msg_pagamento_create_failed :: string where
  "msg_pagamento_create_failed = ''Erro ao registrar pagamento''"

lemmas msg_defs =
  a_tilde_def a_acute_def o_acute_def c_cedil_def
  msg_token_missing_def msg_session_expired_def msg_token_invalid_def msg_user_exists_def
  msg_user_created_def msg_signup_failed_def msg_fields_required_def
  msg_bad_credentials_def msg_config_error_def msg_login_failed_def
  msg_user_registered_def msg_novo_failed_def msg_logout_done_def msg_database_error_def
  msg_cliente_not_found_def msg_cliente_failed_def msg_whatsapp_taken_def
  msg_cliente_create_failed_def msg_pagamentos_failed_def msg_pagamento_create_failed_def

section \<open>Process environment and libraries\<close>

text \<open>\<open>process.env\<close>: a variable that is not set reads as \<open>undefined\<close>.\<close>

record env =
  JWT_SECRET :: "string option"
  JWT_EXPIRES_IN :: "string option"
  NODE_ENV :: "string option"

text \<open>
  What is not fixed by the request: the clock read by the token library and the salt drawn
  by the hashing library while the request is handled.
\<close>

record world =
  clock :: nat
  salt :: string

text \<open>
  The libraries \<open>jsonwebtoken\<close> and \<open>bcryptjs\<close> are parameters of the model.
  \<open>jwt_verify token secret clock\<close> is \<open>None\<close> when the callback of \<open>jwt.verify\<close>
  receives an error and the decoded payload otherwise; \<open>jwt_sign payload secret
  expiresIn clock\<close> is \<open>None\<close> when \<open>jwt.sign\<close> throws.
\<close>

record lib =
  jwt_verify :: "string \<Rightarrow> string option \<Rightarrow> nat \<Rightarrow> jsval option"
  jwt_sign :: "jsval \<Rightarrow> string \<Rightarrow> string \<Rightarrow> nat \<Rightarrow> string option"
  bcrypt_hash :: "string \<Rightarrow> string \<Rightarrow> string"
  bcrypt_compare :: "string \<Rightarrow> string \<Rightarrow> bool"

section \<open>The authentication middleware\<close>

text \<open>\<open>req.headers['authorization']?.split(' ')[1]\<close>\<close>

definition bearer_token :: "string option \<Rightarrow> string option" where
  "bearer_token h =
     (case h of
        None \<Rightarrow> None
      | Some a \<Rightarrow> at_index (split_on CHR '' '' a) 1)"

text \<open>
  The middleware either answers the request itself or sets \<open>req.user\<close> and calls
  \<open>next()\<close>. \<open>verify_calls\<close> records the tokens handed to \<open>jwt.verify\<close>.
  \<open>revokedTokens\<close> is a JavaScript \<open>Set\<close>; its members are the values of the token
  expression, a string or \<open>undefined\<close> (\<open>None\<close>).
\<close>

datatype guard_outcome = Rejected response | Next jsval

record guard_result =
  outcome :: guard_outcome
  verify_calls :: "string list"

definition authenticateToken ::
  "lib \<Rightarrow> env \<Rightarrow> nat \<Rightarrow> string option set \<Rightarrow> string option \<Rightarrow> guard_result" where
  "authenticateToken L E now revoked h =
     (case bearer_token h of
        None \<Rightarrow>
          \<lparr>outcome = Rejected (respond 401 (error_body msg_token_missing)), verify_calls = []\<rparr>
      | Some token \<Rightarrow>
          if token = [] then
            \<lparr>outcome = Rejected (respond 401 (error_body msg_token_missing)),
             verify_calls = []\<rparr>
          else if Some token \<in> revoked then
            \<lparr>outcome = Rejected (respond 403 (error_body msg_session_expired)),
             verify_calls = []\<rparr>
          else
            (case jwt_verify L token (JWT_SECRET E) now of
               None \<Rightarrow>
                 \<lparr>outcome = Rejected (respond 403 (error_body msg_token_invalid)),
                  verify_calls = [token]\<rparr>
             | Some decoded \<Rightarrow> \<lparr>outcome = Next decoded, verify_calls = [token]\<rparr>))"

section \<open>The store interface\<close>

text \<open>
  \<open>pool.query(text, params)\<close> resolves to a result with \<open>rowCount\<close> and \<open>rows\<close>
  or rejects with an error that may carry a \<open>code\<close>. The store is a parameter of the
  handlers: a function from the statement text, its parameters and the store's state to
  the answer and the new state. \<open>issued\<close> records the statements sent, in order.
\<close>

datatype jserror = JsError (err_code: "string option") (err_message: string)

record qresult =
  rowCount :: nat
  rows :: "(string \<times> jsval) list list"

type_synonym 'db pool = "string \<Rightarrow> jsval list \<Rightarrow> 'db \<Rightarrow> (jserror + qresult) \<times> 'db"

record 'db conn =
  db :: 'db
  issued :: "(string \<times> jsval list) list"

definition pool_query ::
  "'db pool \<Rightarrow> string \<Rightarrow> jsval list \<Rightarrow> 'db conn \<Rightarrow> (jserror + qresult) \<times> 'db conn" where
  "pool_query P text params c =
     (case P text params (db c) of
        (r, d) \<Rightarrow> (r, \<lparr>db = d, issued = issued c @ [(text, params)]\<rparr>))"

text \<open>
  Reading a property of \<open>rows[0]\<close> when there is no row throws a \<open>TypeError\<close>, which
  has no \<open>code\<close>; the wording of its message belongs to the JavaScript engine.
\<close>

definition type_error :: jserror where
  "type_error = JsError None ''TypeError''"

text \<open>
  \<open>bcrypt.hash(password, 10)\<close> and \<open>bcrypt.compare(password, hash)\<close> reject when an
  argument is not a string (\<open>None\<close>); \<open>jwt.sign\<close> throws when the key is missing or
  empty.
\<close>

definition bcrypt_hash_call :: "lib \<Rightarrow> jsval \<Rightarrow> string \<Rightarrow> string option" where
  "bcrypt_hash_call L password s =
     (case password of JStr p \<Rightarrow> Some (bcrypt_hash L p s) | _ \<Rightarrow> None)"

definition bcrypt_compare_call :: "lib \<Rightarrow> jsval \<Rightarrow> jsval \<Rightarrow> bool option" where
  "bcrypt_compare_call L password hash =
     (case password of
        JStr p \<Rightarrow> (case hash of JStr h \<Rightarrow> Some (bcrypt_compare L p h) | _ \<Rightarrow> None)
      | _ \<Rightarrow> None)"

definition jwt_sign_call ::
  "lib \<Rightarrow> jsval \<Rightarrow> string option \<Rightarrow> string \<Rightarrow> nat \<Rightarrow> string option" where
  "jwt_sign_call L payload secret expiresIn now =
     (case secret of
        None \<Rightarrow> None
      | Some k \<Rightarrow> if k = [] then None else jwt_sign L payload k expiresIn now)"

text \<open>\<open>process.env.JWT_EXPIRES_IN || '1h'\<close>\<close>

definition expires_in :: "env \<Rightarrow> string" where
  "expires_in E =
     (case JWT_EXPIRES_IN E of
        None \<Rightarrow> ''1h''
      | Some v \<Rightarrow> if v = [] then ''1h'' else v)"

text \<open>\<open>process.env.NODE_ENV === 'development' ? err.message : undefined\<close>\<close>

definition details :: "env \<Rightarrow> jserror \<Rightarrow> jsval" where
  "details E e =
     (if NODE_ENV E = Some ''development'' then JStr (err_message e) else JUndefined)"

section \<open>Requests\<close>

datatype route =
    GET_root
  | POST_signup
  | POST_login
  | POST_novo
  | POST_logout
  | GET_clientes
  | GET_clientes_id
  | POST_clientes
  | GET_clientes_id_pagamentos
  | POST_pagamentos

text \<open>
  \<open>authorization\<close> is \<open>req.headers['authorization']\<close>, \<open>body\<close> the fields of the
  parsed JSON body, \<open>param_id\<close> is \<open>req.params.id\<close> and \<open>query\<close> the fields of
  \<open>req.query\<close>.
\<close>

record request =
  route :: route
  authorization :: "string option"
  body :: "(string \<times> jsval) list"
  param_id :: string
  query :: "(string \<times> jsval) list"

section \<open>The statements sent to the store\<close>

definition sql_server_info :: string where
  "sql_server_info = ''SELECT current_database(), current_user, now() as server_time''"

definition sql_user_exists :: string where
  "sql_user_exists = ''SELECT 1 FROM usuarios WHERE username = $1''"

definition sql_insert_user :: string where
  "sql_insert_user =
     ''INSERT INTO usuarios (username, password_hash, email) VALUES ($1, $2, $3) RETURNING id''"

definition sql_user_login :: string where
  "sql_user_login = ''SELECT id, password_hash FROM usuarios WHERE username = $1''"

definition sql_user_id :: string where
  "sql_user_id = ''SELECT id FROM usuarios WHERE username = $1''"

definition sql_insert_user_novo :: string where
  "sql_insert_user_novo =
     ''INSERT INTO usuarios (username, password_hash) VALUES ($1, $2) RETURNING id''"

definition sql_clientes :: string where
  "sql_clientes = ''SELECT * FROM clientes LIMIT 100''"

definition sql_cliente_by_id :: string where
  "sql_cliente_by_id = ''SELECT * FROM clientes WHERE id = $1''"

text \<open>The two \<open>INSERT\<close> statements are template literals that run over two lines.\<close>

definition sql_insert_cliente :: string where
  "sql_insert_cliente =
     ''INSERT INTO clientes (nome, whatsapp, vencimento, plano, endereco) '' @ [CHR 0x0A] @
     ''       VALUES ($1, $2, $3, $4, $5) RETURNING *''"

definition sql_cliente_exists :: string where
  "sql_cliente_exists = ''SELECT 1 FROM clientes WHERE id = $1''"

definition sql_pagamentos_base :: string where
  "sql_pagamentos_base = ''SELECT * FROM pagamentos WHERE cliente_id = $1''"

definition sql_insert_pagamento :: string where
  "sql_insert_pagamento =
     ''INSERT INTO pagamentos (cliente_id, valor, data_vencimento, referencia)'' @ [CHR 0x0A] @
     ''       VALUES ($1, $2, $3, $4) RETURNING *''"

lemmas sql_defs =
  sql_server_info_def sql_user_exists_def sql_insert_user_def sql_user_login_def
  sql_user_id_def sql_insert_user_novo_def sql_clientes_def sql_cliente_by_id_def
  sql_insert_cliente_def sql_cliente_exists_def sql_pagamentos_base_def
  sql_insert_pagamento_def

section \<open>Public routes\<close>

text \<open>\<open>GET /\<close>\<close>

definition server_info :: "'db pool \<Rightarrow> 'db conn \<Rightarrow> response \<times> 'db conn" where
  "server_info P c =
     (case pool_query P sql_server_info [] c of
        (Inl e, c1) \<Rightarrow>
          (respond 500
             (JObj [(''error'', JStr msg_database_error), (''details'', JStr (err_message e))]),
           c1)
      | (Inr r, c1) \<Rightarrow>
          (case rows r of
             [] \<Rightarrow>
               (respond 500
                  (JObj [(''error'', JStr msg_database_error),
                         (''details'', JStr (err_message type_error))]),
                c1)
           | row # _ \<Rightarrow>
               (respond 200
                  (JObj [(''status'', JStr ''online''),
                         (''database'', field row ''current_database''),
                         (''user'', field row ''current_user''),
                         (''time'', field row ''server_time''),
                         (''neon'', JBool True)]),
                c1)))"

text \<open>\<open>POST /signup\<close> (the same in both listings of the server)\<close>

definition signup ::
  "lib \<Rightarrow> 'db pool \<Rightarrow> world \<Rightarrow> request \<Rightarrow> 'db conn \<Rightarrow> response \<times> 'db conn" where
  "signup L P w req c =
     (let username = field (body req) ''username'';
          password = field (body req) ''password'';
          email = field (body req) ''email''
      in case pool_query P sql_user_exists [username] c of
           (Inl e, c1) \<Rightarrow> (respond 500 (error_body msg_signup_failed), c1)
         | (Inr userExists, c1) \<Rightarrow>
             if rowCount userExists > 0 then (respond 400 (error_body msg_user_exists), c1)
             else
               (case bcrypt_hash_call L password (salt w) of
                  None \<Rightarrow> (respond 500 (error_body msg_signup_failed), c1)
                | Some passwordHash \<Rightarrow>
                    (case pool_query P sql_insert_user [username, JStr passwordHash, email] c1 of
                       (Inl e, c2) \<Rightarrow> (respond 500 (error_body msg_signup_failed), c2)
                     | (Inr r, c2) \<Rightarrow>
                         (case rows r of
                            [] \<Rightarrow> (respond 500 (error_body msg_signup_failed), c2)
                          | row # _ \<Rightarrow>
                              (respond 201
                                 (JObj [(''message'', JStr msg_user_created),
                                        (''userId'', field row ''id'')]),
                               c2)))))"

text \<open>
  \<open>POST /login\<close>, first listing: the fields are validated, then the user is looked up,
  the password compared, the signing secret checked and the token signed.
\<close>

definition login_v1 ::
  "lib \<Rightarrow> env \<Rightarrow> 'db pool \<Rightarrow> world \<Rightarrow> request \<Rightarrow> 'db conn \<Rightarrow> response \<times> 'db conn" where
  "login_v1 L E P w req c =
     (let username = field (body req) ''username'';
          password = field (body req) ''password''
      in if \<not> truthy username \<or> \<not> truthy password then
           (respond 400 (error_body msg_fields_required), c)
         else
           (case pool_query P sql_user_login [username] c of
              (Inl e, c1) \<Rightarrow> (respond 500 (error_body msg_login_failed), c1)
            | (Inr r, c1) \<Rightarrow>
                (case rows r of
                   [] \<Rightarrow> (respond 401 (error_body msg_bad_credentials), c1)
                 | user # _ \<Rightarrow>
                     (case bcrypt_compare_call L password (field user ''password_hash'') of
                        None \<Rightarrow> (respond 500 (error_body msg_login_failed), c1)
                      | Some isValid \<Rightarrow>
                          if \<not> isValid then (respond 401 (error_body msg_bad_credentials), c1)
                          else if JWT_SECRET E = None \<or> JWT_SECRET E = Some [] then
                            (respond 500 (error_body msg_config_error), c1)
                          else
                            (case jwt_sign_call L (JObj [(''userId'', field user ''id'')])
                                    (JWT_SECRET E) (expires_in E) (clock w) of
                               None \<Rightarrow> (respond 500 (error_body msg_login_failed), c1)
                             | Some token \<Rightarrow>
                                 (respond 200 (JObj [(''token'', JStr token)]), c1))))))"

text \<open>
  \<open>POST /login\<close>, second listing: no validation of the fields and no check of the
  secret before \<open>jwt.sign\<close>.
\<close>

definition login_v2 ::
  "lib \<Rightarrow> env \<Rightarrow> 'db pool \<Rightarrow> world \<Rightarrow> request \<Rightarrow> 'db conn \<Rightarrow> response \<times> 'db conn" where
  "login_v2 L E P w req c =
     (let username = field (body req) ''username'';
          password = field (body req) ''password''
      in case pool_query P sql_user_login [username] c of
           (Inl e, c1) \<Rightarrow> (respond 500 (error_body msg_login_failed), c1)
         | (Inr r, c1) \<Rightarrow>
             (case rows r of
                [] \<Rightarrow> (respond 401 (error_body msg_bad_credentials), c1)
              | user # _ \<Rightarrow>
                  (case bcrypt_compare_call L password (field user ''password_hash'') of
                     None \<Rightarrow> (respond 500 (error_body msg_login_failed), c1)
                   | Some isValid \<Rightarrow>
                       if \<not> isValid then (respond 401 (error_body msg_bad_credentials), c1)
                       else
                         (case jwt_sign_call L (JObj [(''userId'', field user ''id'')])
                                 (JWT_SECRET E) (expires_in E) (clock w) of
                            None \<Rightarrow> (respond 500 (error_body msg_login_failed), c1)
                          | Some token \<Rightarrow>
                              (respond 200 (JObj [(''token'', JStr token)]), c1)))))"

text \<open>\<open>POST /novo\<close> (first listing only)\<close>

definition novo ::
  "lib \<Rightarrow> 'db pool \<Rightarrow> world \<Rightarrow> request \<Rightarrow> 'db conn \<Rightarrow> response \<times> 'db conn" where
  "novo L P w req c =
     (let username = field (body req) ''username'';
          password = field (body req) ''password''
      in case pool_query P sql_user_id [username] c of
           (Inl e, c1) \<Rightarrow> (respond 500 (error_body msg_novo_failed), c1)
         | (Inr r, c1) \<Rightarrow>
             if length (rows r) > 0 then (respond 400 (error_body msg_user_exists), c1)
             else
               (case bcrypt_hash_call L password (salt w) of
                  None \<Rightarrow> (respond 500 (error_body msg_novo_failed), c1)
                | Some passwordHash \<Rightarrow>
                    (case pool_query P sql_insert_user_novo [username, JStr passwordHash] c1 of
                       (Inl e, c2) \<Rightarrow> (respond 500 (error_body msg_novo_failed), c2)
                     | (Inr result, c2) \<Rightarrow>
                         (case rows result of
                            [] \<Rightarrow> (respond 500 (error_body msg_novo_failed), c2)
                          | row # _ \<Rightarrow>
                              (respond 201
                                 (JObj [(''message'', JStr msg_user_registered),
                                        (''userId'', field row ''id'')]),
                               c2)))))"

section \<open>Protected routes\<close>

text \<open>Rows are sent as JSON objects.\<close>

definition first_row :: "qresult \<Rightarrow> jsval" where
  "first_row r = (case rows r of [] \<Rightarrow> JUndefined | row # _ \<Rightarrow> JObj row)"

text \<open>\<open>GET /clientes\<close>\<close>

definition list_clientes :: "env \<Rightarrow> 'db pool \<Rightarrow> 'db conn \<Rightarrow> response \<times> 'db conn" where
  "list_clientes E P c =
     (case pool_query P sql_clientes [] c of
        (Inl e, c1) \<Rightarrow>
          (respond 500
             (JObj [(''success'', JBool False), (''error'', JStr msg_database_error),
                    (''details'', details E e)]),
           c1)
      | (Inr r, c1) \<Rightarrow>
          (respond 200
             (JObj [(''success'', JBool True), (''count'', JNum (int (length (rows r)))),
                    (''data'', JArr (map JObj (rows r)))]),
           c1))"

text \<open>\<open>GET /clientes/:id\<close> (first listing only)\<close>

definition get_cliente ::
  "env \<Rightarrow> 'db pool \<Rightarrow> request \<Rightarrow> 'db conn \<Rightarrow> response \<times> 'db conn" where
  "get_cliente E P req c =
     (let cid = JStr (param_id req)
      in case pool_query P sql_cliente_by_id [cid] c of
           (Inl e, c1) \<Rightarrow>
             (respond 500 (JObj [(''error'', JStr msg_cliente_failed), (''details'', details E e)]),
              c1)
         | (Inr result, c1) \<Rightarrow>
             if rowCount result = 0 then (respond 404 (error_body msg_cliente_not_found), c1)
             else (respond 200 (first_row result), c1))"

text \<open>
  \<open>POST /clientes\<close>: the store's error code \<open>23505\<close> (unique violation) is answered
  with 400, any other error with 500.
\<close>

definition create_cliente :: "'db pool \<Rightarrow> request \<Rightarrow> 'db conn \<Rightarrow> response \<times> 'db conn" where
  "create_cliente P req c =
     (let nome = field (body req) ''nome'';
          whatsapp = field (body req) ''whatsapp'';
          vencimento = field (body req) ''vencimento'';
          plano = field (body req) ''plano'';
          endereco = field (body req) ''endereco''
      in case pool_query P sql_insert_cliente [nome, whatsapp, vencimento, plano, endereco] c of
           (Inl err, c1) \<Rightarrow>
             if err_code err = Some ''23505'' then
               (respond 400 (error_body msg_whatsapp_taken), c1)
             else (respond 500 (error_body msg_cliente_create_failed), c1)
         | (Inr r, c1) \<Rightarrow> (respond 201 (first_row r), c1))"

text \<open>
  \<open>GET /clientes/:id/pagamentos\<close>. A number put into a template literal is printed in
  decimal.
\<close>

definition digit_char :: "nat \<Rightarrow> char" where
  "digit_char d = ''0123456789'' ! d"

function show_nat :: "nat \<Rightarrow> string" where
  "show_nat n =
     (if n < 10 then [digit_char n] else show_nat (n div 10) @ [digit_char (n mod 10)])"
  by pat_completeness auto
termination
  by (relation "measure (\<lambda>n. n)") auto

declare show_nat.simps [simp del]

text \<open>
  The statement and its parameters, built as the handler does (\<open>text\<close> is the
  source's \<open>query\<close>, \<open>cid\<close>, \<open>st\<close>, \<open>yr\<close> and \<open>mo\<close> its \<open>id\<close>,
  \<open>status\<close>, \<open>year\<close> and \<open>month\<close>): the text starts from the
  base statement, each filter that is truthy appends its clause with the next parameter
  number and pushes its value, and the ordering is appended last.
\<close>

definition pagamentos_query ::
  "jsval \<Rightarrow> jsval \<Rightarrow> jsval \<Rightarrow> jsval \<Rightarrow> string \<times> jsval list" where
  "pagamentos_query cid st yr mo =
     (let text = sql_pagamentos_base;
          params = [cid];
          paramIndex = (2::nat);
          (text, params, paramIndex) =
            (if truthy st then
               (text @ '' AND status = $'' @ show_nat paramIndex, params @ [st],
                paramIndex + 1)
             else (text, params, paramIndex));
          (text, params, paramIndex) =
            (if truthy yr then
               (text @ '' AND EXTRACT(YEAR FROM data_vencimento) = $'' @ show_nat paramIndex,
                params @ [yr], paramIndex + 1)
             else (text, params, paramIndex));
          (text, params) =
            (if truthy mo then
               (text @ '' AND EXTRACT(MONTH FROM data_vencimento) = $'' @ show_nat paramIndex,
                params @ [mo])
             else (text, params));
          text = text @ '' ORDER BY data_vencimento DESC''
      in (text, params))"

definition list_pagamentos ::
  "env \<Rightarrow> 'db pool \<Rightarrow> request \<Rightarrow> 'db conn \<Rightarrow> response \<times> 'db conn" where
  "list_pagamentos E P req c =
     (let cid = JStr (param_id req);
          st = field (query req) ''status'';
          yr = field (query req) ''year'';
          mo = field (query req) ''month''
      in case pool_query P sql_cliente_exists [cid] c of
           (Inl e, c1) \<Rightarrow>
             (respond 500
                (JObj [(''error'', JStr msg_pagamentos_failed), (''details'', details E e)]),
              c1)
         | (Inr clienteExists, c1) \<Rightarrow>
             if rowCount clienteExists = 0 then
               (respond 404 (error_body msg_cliente_not_found), c1)
             else
               (case pagamentos_query cid st yr mo of
                  (text, params) \<Rightarrow>
                    (case pool_query P text params c1 of
                       (Inl e, c2) \<Rightarrow>
                         (respond 500
                            (JObj [(''error'', JStr msg_pagamentos_failed),
                                   (''details'', details E e)]),
                          c2)
                     | (Inr r, c2) \<Rightarrow> (respond 200 (JArr (map JObj (rows r))), c2))))"

text \<open>\<open>POST /pagamentos\<close>\<close>

definition create_pagamento :: "'db pool \<Rightarrow> request \<Rightarrow> 'db conn \<Rightarrow> response \<times> 'db conn" where
  "create_pagamento P req c =
     (let cliente_id = field (body req) ''cliente_id'';
          valor = field (body req) ''valor'';
          data_vencimento = field (body req) ''data_vencimento'';
          referencia = field (body req) ''referencia''
      in case pool_query P sql_insert_pagamento [cliente_id, valor, data_vencimento, referencia] c of
           (Inl e, c1) \<Rightarrow> (respond 500 (error_body msg_pagamento_create_failed), c1)
         | (Inr r, c1) \<Rightarrow> (respond 201 (first_row r), c1))"

section \<open>The server\<close>

text \<open>
  The state of the process: the module-level set \<open>revokedTokens\<close> and the store behind
  the pool. The source holds two listings of the server, \<open>V1\<close> (which exports the
  application) and \<open>V2\<close> (which listens on the port); they differ in \<open>POST /login\<close>
  and in that \<open>POST /novo\<close> and \<open>GET /clientes/:id\<close> exist in \<open>V1\<close> only.
\<close>

datatype listing = V1 | V2

record 'db server =
  revokedTokens :: "string option set"
  conn :: "'db conn"

definition routed :: "listing \<Rightarrow> route \<Rightarrow> bool" where
  "routed v r = (v = V1 \<or> (r \<noteq> POST_novo \<and> r \<noteq> GET_clientes_id))"

text \<open>The routes registered with \<open>authenticateToken\<close>.\<close>

fun protected :: "route \<Rightarrow> bool" where
  "protected GET_root = False"
| "protected POST_signup = False"
| "protected POST_login = False"
| "protected POST_novo = False"
| "protected POST_logout = True"
| "protected GET_clientes = True"
| "protected GET_clientes_id = True"
| "protected POST_clientes = True"
| "protected GET_clientes_id_pagamentos = True"
| "protected POST_pagamentos = True"

text \<open>
  A request for a route that the listing does not register falls through to the
  framework's own not-found answer, whose body is not part of this code.
\<close>

definition not_routed :: response where
  "not_routed = respond 404 JUndefined"

text \<open>The handler bodies, run once the middleware (if any) has called \<open>next()\<close>.\<close>

definition run_store ::
  "('db conn \<Rightarrow> response \<times> 'db conn) \<Rightarrow> 'db server \<Rightarrow> response \<times> 'db server" where
  "run_store h s = (case h (conn s) of (resp, c) \<Rightarrow> (resp, s\<lparr>conn := c\<rparr>))"

fun handler ::
  "listing \<Rightarrow> lib \<Rightarrow> env \<Rightarrow> 'db pool \<Rightarrow> world \<Rightarrow> request \<Rightarrow> route \<Rightarrow> 'db server \<Rightarrow>
   response \<times> 'db server" where
  "handler v L E P w req GET_root s = run_store (server_info P) s"
| "handler v L E P w req POST_signup s = run_store (signup L P w req) s"
| "handler v L E P w req POST_login s =
     run_store (case v of V1 \<Rightarrow> login_v1 L E P w req | V2 \<Rightarrow> login_v2 L E P w req) s"
| "handler v L E P w req POST_novo s = run_store (novo L P w req) s"
| "handler v L E P w req POST_logout s =
     (respond 200 (JObj [(''message'', JStr msg_logout_done)]),
      s\<lparr>revokedTokens := insert (bearer_token (authorization req)) (revokedTokens s)\<rparr>)"
| "handler v L E P w req GET_clientes s = run_store (list_clientes E P) s"
| "handler v L E P w req GET_clientes_id s = run_store (get_cliente E P req) s"
| "handler v L E P w req POST_clientes s = run_store (create_cliente P req) s"
| "handler v L E P w req GET_clientes_id_pagamentos s = run_store (list_pagamentos E P req) s"
| "handler v L E P w req POST_pagamentos s = run_store (create_pagamento P req) s"

text \<open>One request, from routing through the middleware to the handler.\<close>

definition serve ::
  "listing \<Rightarrow> lib \<Rightarrow> env \<Rightarrow> 'db pool \<Rightarrow> 'db server \<Rightarrow> world \<times> request \<Rightarrow>
   response \<times> 'db server" where
  "serve v L E P s wr =
     (case wr of
        (w, req) \<Rightarrow>
          if \<not> routed v (route req) then (not_routed, s)
          else if protected (route req) then
            (case outcome (authenticateToken L E (clock w) (revokedTokens s)
                             (authorization req)) of
               Rejected resp \<Rightarrow> (resp, s)
             | Next user \<Rightarrow> handler v L E P w req (route req) s)
          else handler v L E P w req (route req) s)"

text \<open>The state after a sequence of requests, handled one after the other.\<close>

definition serve_all ::
  "listing \<Rightarrow> lib \<Rightarrow> env \<Rightarrow> 'db pool \<Rightarrow> 'db server \<Rightarrow> (world \<times> request) list \<Rightarrow> 'db server" where
  "serve_all v L E P s wrs = foldl (\<lambda>s wr. snd (serve v L E P s wr)) s wrs"

text \<open>
  Requests are handled concurrently: every store call is awaited, so between two statements
  of one handler a statement of another request can run. \<open>interleaved P t ps\<close> is the
  pool \<open>P\<close> as a signup sees it when the statement \<open>t\<close> with parameters \<open>ps\<close> of another
  request runs right after the signup's lookup of the user name.
\<close>

definition interleaved :: "'db pool \<Rightarrow> string \<Rightarrow> jsval list \<Rightarrow> 'db pool" where
  "interleaved P t ps text params d =
     (case P text params d of
        (r, d1) \<Rightarrow> if text = sql_user_exists then (r, snd (P t ps d1)) else (r, d1))"

text \<open>
  Start-up: the connection test \<open>pool.query('SELECT 1')\<close>; when it fails the process
  exits with code 1. This is the only place where the code ends the process.
\<close>

datatype process = Running | Exited nat

definition startup :: "'db pool \<Rightarrow> 'db \<Rightarrow> process" where
  "startup P d = (case fst (P ''SELECT 1'' [] d) of Inl e \<Rightarrow> Exited 1 | Inr r \<Rightarrow> Running)"

section \<open>A reference store\<close>

text \<open>
  Modelled from the spec: the relational schema and the store itself are not part of the
  source. The tables follow the data model of the specification: identifiers are opaque
  (here text, compared for equality), \<open>usuarios.username\<close> and \<open>clientes.whatsapp\<close>
  are unique, \<open>pagamentos.cliente_id\<close> references \<open>clientes.id\<close>, and the due date of
  a payment is a calendar date. A column value \<open>None\<close> is SQL \<open>NULL\<close>.
\<close>

record date =
  d_year :: nat
  d_month :: nat
  d_day :: nat

record usuario =
  u_id :: string
  u_username :: "string option"
  u_password_hash :: "string option"
  u_email :: "string option"

record cliente =
  c_id :: string
  c_nome :: "string option"
  c_whatsapp :: "string option"
  c_vencimento :: "string option"
  c_plano :: "string option"
  c_endereco :: "string option"

record pagamento =
  p_id :: string
  p_cliente_id :: "string option"
  p_valor :: "string option"
  p_data_vencimento :: "date option"
  p_referencia :: "string option"
  p_status :: "string option"

record store =
  usuarios :: "usuario list"
  clientes :: "cliente list"
  pagamentos :: "pagamento list"
  next_id :: nat

text \<open>
  What the reference store leaves open, as parameters: how the driver prints a parameter
  that is neither null nor a string, how the store reads a number and a date from text,
  how a date is handed back to JavaScript, the default of \<open>pagamentos.status\<close>, and the
  answer to the server-information statement.
\<close>

record pg =
  to_text :: "jsval \<Rightarrow> string"
  numeric_in :: "string \<Rightarrow> rat option"
  date_in :: "string \<Rightarrow> date option"
  date_out :: "date \<Rightarrow> jsval"
  default_status :: "string option"
  server_row :: "(string \<times> jsval) list"

text \<open>The driver sends \<open>undefined\<close> and \<open>null\<close> as \<open>NULL\<close> and a string as it is.\<close>

definition prepare :: "pg \<Rightarrow> jsval \<Rightarrow> string option" where
  "prepare G v =
     (case v of
        JUndefined \<Rightarrow> None
      | JNull \<Rightarrow> None
      | JStr t \<Rightarrow> Some t
      | _ \<Rightarrow> Some (to_text G v))"

definition nullable :: "string option \<Rightarrow> jsval" where
  "nullable v = (case v of None \<Rightarrow> JNull | Some t \<Rightarrow> JStr t)"

text \<open>\<open>column = $n\<close> holds when neither side is \<open>NULL\<close> and the two are equal.\<close>

definition sql_eq :: "string option \<Rightarrow> string option \<Rightarrow> bool" where
  "sql_eq a b = (case a of None \<Rightarrow> False | Some x \<Rightarrow> b = Some x)"

definition pg_error :: "string \<Rightarrow> jserror" where
  "pg_error c = JsError (Some c) ''store error''"

definition one_row :: "(string \<times> jsval) list" where
  "one_row = [(''?column?'', JNum 1)]"

definition result_of :: "(string \<times> jsval) list list \<Rightarrow> qresult" where
  "result_of rs = \<lparr>rowCount = length rs, rows = rs\<rparr>"

definition usuario_row :: "usuario \<Rightarrow> (string \<times> jsval) list" where
  "usuario_row u =
     [(''id'', JStr (u_id u)), (''username'', nullable (u_username u)),
      (''password_hash'', nullable (u_password_hash u)), (''email'', nullable (u_email u))]"

definition cliente_row :: "cliente \<Rightarrow> (string \<times> jsval) list" where
  "cliente_row k =
     [(''id'', JStr (c_id k)), (''nome'', nullable (c_nome k)),
      (''whatsapp'', nullable (c_whatsapp k)), (''vencimento'', nullable (c_vencimento k)),
      (''plano'', nullable (c_plano k)), (''endereco'', nullable (c_endereco k))]"

definition pagamento_row :: "pg \<Rightarrow> pagamento \<Rightarrow> (string \<times> jsval) list" where
  "pagamento_row G p =
     [(''id'', JStr (p_id p)), (''cliente_id'', nullable (p_cliente_id p)),
      (''valor'', nullable (p_valor p)),
      (''data_vencimento'',
         (case p_data_vencimento p of None \<Rightarrow> JNull | Some d \<Rightarrow> date_out G d)),
      (''referencia'', nullable (p_referencia p)), (''status'', nullable (p_status p))]"

definition users_named :: "store \<Rightarrow> string option \<Rightarrow> usuario list" where
  "users_named d name = filter (\<lambda>u. sql_eq (u_username u) name) (usuarios d)"

definition clientes_with_id :: "store \<Rightarrow> string option \<Rightarrow> cliente list" where
  "clientes_with_id d i = filter (\<lambda>k. sql_eq (Some (c_id k)) i) (clientes d)"

definition clientes_with_whatsapp :: "store \<Rightarrow> string option \<Rightarrow> cliente list" where
  "clientes_with_whatsapp d n = filter (\<lambda>k. sql_eq (c_whatsapp k) n) (clientes d)"

text \<open>
  \<open>INSERT INTO usuarios\<close>: a user name that is already in the table violates the
  unique constraint (error code \<open>23505\<close>) and nothing is inserted.
\<close>

definition insert_usuario ::
  "string option \<Rightarrow> string option \<Rightarrow> string option \<Rightarrow> store \<Rightarrow> (jserror + qresult) \<times> store" where
  "insert_usuario name hash email d =
     (if users_named d name \<noteq> [] then (Inl (pg_error ''23505''), d)
      else
        (let u = \<lparr>u_id = show_nat (next_id d), u_username = name, u_password_hash = hash,
                  u_email = email\<rparr>
         in (Inr (result_of [[(''id'', JStr (u_id u))]]),
             d\<lparr>usuarios := usuarios d @ [u], next_id := next_id d + 1\<rparr>)))"

text \<open>\<open>INSERT INTO clientes\<close>: the same for the WhatsApp number.\<close>

definition insert_cliente :: "string option list \<Rightarrow> store \<Rightarrow> (jserror + qresult) \<times> store" where
  "insert_cliente vs d =
     (case vs of
        [nome, whatsapp, vencimento, plano, endereco] \<Rightarrow>
          if clientes_with_whatsapp d whatsapp \<noteq> [] then (Inl (pg_error ''23505''), d)
          else
            (let k = \<lparr>c_id = show_nat (next_id d), c_nome = nome, c_whatsapp = whatsapp,
                      c_vencimento = vencimento, c_plano = plano, c_endereco = endereco\<rparr>
             in (Inr (result_of [cliente_row k]),
                 d\<lparr>clientes := clientes d @ [k], next_id := next_id d + 1\<rparr>))
      | _ \<Rightarrow> (Inl (pg_error ''08P01''), d))"

text \<open>
  \<open>INSERT INTO pagamentos\<close>: a customer id that is not in \<open>clientes\<close> violates the
  foreign key (\<open>23503\<close>); a due date that does not read as a date is refused
  (\<open>22007\<close>).
\<close>

definition insert_pagamento ::
  "pg \<Rightarrow> string option list \<Rightarrow> store \<Rightarrow> (jserror + qresult) \<times> store" where
  "insert_pagamento G vs d =
     (case vs of
        [cliente_id, valor, data_vencimento, referencia] \<Rightarrow>
          if cliente_id \<noteq> None \<and> clientes_with_id d cliente_id = [] then
            (Inl (pg_error ''23503''), d)
          else if (case data_vencimento of None \<Rightarrow> False | Some t \<Rightarrow> date_in G t = None) then
            (Inl (pg_error ''22007''), d)
          else
            (let p = \<lparr>p_id = show_nat (next_id d), p_cliente_id = cliente_id, p_valor = valor,
                      p_data_vencimento =
                        (case data_vencimento of None \<Rightarrow> None | Some t \<Rightarrow> date_in G t),
                      p_referencia = referencia, p_status = default_status G\<rparr>
             in (Inr (result_of [pagamento_row G p]),
                 d\<lparr>pagamentos := pagamentos d @ [p], next_id := next_id d + 1\<rparr>))
      | _ \<Rightarrow> (Inl (pg_error ''08P01''), d))"

text \<open>
  The listing of payments is the one statement whose text is built at run time. The
  reference store reads it: the base statement, then any number of \<open>AND\<close> clauses on the
  status, the year or the month of the due date, each against a numbered parameter, then
  the ordering.
\<close>

datatype clause = ByStatus nat | ByYear nat | ByMonth nat

definition strip_prefix :: "string \<Rightarrow> string \<Rightarrow> string option" where
  "strip_prefix p t = (if take (length p) t = p then Some (drop (length p) t) else None)"

definition digit_value :: "char \<Rightarrow> nat option" where
  "digit_value ch =
     map_of [(CHR ''0'', 0), (CHR ''1'', 1), (CHR ''2'', 2), (CHR ''3'', 3), (CHR ''4'', 4),
             (CHR ''5'', 5), (CHR ''6'', 6), (CHR ''7'', 7), (CHR ''8'', 8), (CHR ''9'', 9)] ch"

definition read_number :: "string \<Rightarrow> (nat \<times> string) option" where
  "read_number t =
     (let ds = takeWhile (\<lambda>ch. digit_value ch \<noteq> None) t
      in if ds = [] then None
         else Some (foldl (\<lambda>a ch. 10 * a + (case digit_value ch of None \<Rightarrow> 0 | Some v \<Rightarrow> v)) 0 ds,
                    drop (length ds) t))"

definition read_clause :: "string \<Rightarrow> (clause \<times> string) option" where
  "read_clause t =
     (case strip_prefix '' AND status = $'' t of
        Some r \<Rightarrow> map_option (\<lambda>(n, r'). (ByStatus n, r')) (read_number r)
      | None \<Rightarrow>
          (case strip_prefix '' AND EXTRACT(YEAR FROM data_vencimento) = $'' t of
             Some r \<Rightarrow> map_option (\<lambda>(n, r'). (ByYear n, r')) (read_number r)
           | None \<Rightarrow>
               (case strip_prefix '' AND EXTRACT(MONTH FROM data_vencimento) = $'' t of
                  Some r \<Rightarrow> map_option (\<lambda>(n, r'). (ByMonth n, r')) (read_number r)
                | None \<Rightarrow> None)))"

text \<open>The fuel bounds the number of clauses; every clause takes characters off the text.\<close>

fun read_clauses :: "nat \<Rightarrow> string \<Rightarrow> clause list option" where
  "read_clauses 0 t = None"
| "read_clauses (Suc k) t =
     (if t = '' ORDER BY data_vencimento DESC'' then Some []
      else (case read_clause t of
              None \<Rightarrow> None
            | Some (cl, r) \<Rightarrow> map_option ((#) cl) (read_clauses k r)))"

definition read_listing :: "string \<Rightarrow> clause list option" where
  "read_listing t =
     (case strip_prefix sql_pagamentos_base t of
        None \<Rightarrow> None
      | Some r \<Rightarrow> read_clauses (Suc (length r)) r)"

text \<open>
  A clause with its parameter bound is a test on a payment. A parameter number without a
  value is a protocol error (\<open>08P01\<close>); a year or month that does not read as a number
  is refused (\<open>22P02\<close>). A \<open>NULL\<close> on either side makes the test fail.
\<close>

definition number_test ::
  "pg \<Rightarrow> jsval list \<Rightarrow> nat \<Rightarrow> (date \<Rightarrow> nat) \<Rightarrow> jserror + (pagamento \<Rightarrow> bool)" where
  "number_test G params n part =
     (case at_index params (n - 1) of
        None \<Rightarrow> Inl (pg_error ''08P01'')
      | Some v \<Rightarrow>
          (case prepare G v of
             None \<Rightarrow> Inr (\<lambda>p. False)
           | Some t \<Rightarrow>
               (case numeric_in G t of
                  None \<Rightarrow> Inl (pg_error ''22P02'')
                | Some q \<Rightarrow>
                    Inr (\<lambda>p. case p_data_vencimento p of
                                None \<Rightarrow> False
                              | Some d \<Rightarrow> of_nat (part d) = q))))"

fun bind_clause :: "pg \<Rightarrow> jsval list \<Rightarrow> clause \<Rightarrow> jserror + (pagamento \<Rightarrow> bool)" where
  "bind_clause G params (ByStatus n) =
     (if n = 0 then Inl (pg_error ''08P01'')
      else (case at_index params (n - 1) of
              None \<Rightarrow> Inl (pg_error ''08P01'')
            | Some v \<Rightarrow> Inr (\<lambda>p. sql_eq (p_status p) (prepare G v))))"
| "bind_clause G params (ByYear n) =
     (if n = 0 then Inl (pg_error ''08P01'') else number_test G params n d_year)"
| "bind_clause G params (ByMonth n) =
     (if n = 0 then Inl (pg_error ''08P01'') else number_test G params n d_month)"

fun bind_clauses :: "pg \<Rightarrow> jsval list \<Rightarrow> clause list \<Rightarrow> jserror + (pagamento \<Rightarrow> bool) list" where
  "bind_clauses G params [] = Inr []"
| "bind_clauses G params (cl # cls) =
     (case bind_clause G params cl of
        Inl e \<Rightarrow> Inl e
      | Inr t \<Rightarrow>
          (case bind_clauses G params cls of
             Inl e \<Rightarrow> Inl e
           | Inr ts \<Rightarrow> Inr (t # ts)))"

text \<open>
  \<open>ORDER BY data_vencimento DESC\<close>: latest due date first; a \<open>NULL\<close> due date sorts
  before every date in descending order.
\<close>

definition due_key :: "pagamento \<Rightarrow> bool \<times> nat \<times> nat \<times> nat" where
  "due_key p =
     (case p_data_vencimento p of
        None \<Rightarrow> (True, 0, 0, 0)
      | Some d \<Rightarrow> (False, d_year d, d_month d, d_day d))"

definition order_by_due_desc :: "pagamento list \<Rightarrow> pagamento list" where
  "order_by_due_desc ps = rev (sort_key due_key ps)"

definition select_pagamentos ::
  "pg \<Rightarrow> string \<Rightarrow> jsval list \<Rightarrow> store \<Rightarrow> jserror + pagamento list" where
  "select_pagamentos G text params d =
     (case read_listing text of
        None \<Rightarrow> Inl (pg_error ''42601'')
      | Some cls \<Rightarrow>
          (case at_index params 0 of
             None \<Rightarrow> Inl (pg_error ''08P01'')
           | Some v \<Rightarrow>
               (case bind_clauses G params cls of
                  Inl e \<Rightarrow> Inl e
                | Inr tests \<Rightarrow>
                    Inr (order_by_due_desc
                           (filter (\<lambda>p. sql_eq (p_cliente_id p) (prepare G v) \<and>
                                        list_all (\<lambda>t. t p) tests)
                              (pagamentos d))))))"

text \<open>
  The reference store as a pool: it answers the statements of the server and refuses any
  other text as a syntax error (\<open>42601\<close>) and a wrong number of parameters as a
  protocol error (\<open>08P01\<close>).
\<close>

definition mem_pool :: "pg \<Rightarrow> store pool" where
  "mem_pool G text params d =
     (let vs = map (prepare G) params
      in if text = ''SELECT 1'' then (Inr (result_of [one_row]), d)
         else if text = sql_server_info then (Inr (result_of [server_row G]), d)
         else if text = sql_user_exists then
           (case vs of
              [name] \<Rightarrow> (Inr (result_of (map (\<lambda>u. one_row) (users_named d name))), d)
            | _ \<Rightarrow> (Inl (pg_error ''08P01''), d))
         else if text = sql_insert_user then
           (case vs of
              [name, hash, email] \<Rightarrow> insert_usuario name hash email d
            | _ \<Rightarrow> (Inl (pg_error ''08P01''), d))
         else if text = sql_user_login then
           (case vs of
              [name] \<Rightarrow>
                (Inr (result_of
                        (map (\<lambda>u. [(''id'', JStr (u_id u)),
                                    (''password_hash'', nullable (u_password_hash u))])
                           (users_named d name))),
                 d)
            | _ \<Rightarrow> (Inl (pg_error ''08P01''), d))
         else if text = sql_user_id then
           (case vs of
              [name] \<Rightarrow>
                (Inr (result_of (map (\<lambda>u. [(''id'', JStr (u_id u))]) (users_named d name))), d)
            | _ \<Rightarrow> (Inl (pg_error ''08P01''), d))
         else if text = sql_insert_user_novo then
           (case vs of
              [name, hash] \<Rightarrow> insert_usuario name hash None d
            | _ \<Rightarrow> (Inl (pg_error ''08P01''), d))
         else if text = sql_clientes then
           (Inr (result_of (map cliente_row (take 100 (clientes d)))), d)
         else if text = sql_cliente_by_id then
           (case vs of
              [i] \<Rightarrow> (Inr (result_of (map cliente_row (clientes_with_id d i))), d)
            | _ \<Rightarrow> (Inl (pg_error ''08P01''), d))
         else if text = sql_insert_cliente then insert_cliente vs d
         else if text = sql_cliente_exists then
           (case vs of
              [i] \<Rightarrow> (Inr (result_of (map (\<lambda>k. one_row) (clientes_with_id d i))), d)
            | _ \<Rightarrow> (Inl (pg_error ''08P01''), d))
         else if text = sql_insert_pagamento then insert_pagamento G vs d
         else
           (case select_pagamentos G text params d of
              Inl e \<Rightarrow> (Inl e, d)
            | Inr ps \<Rightarrow> (Inr (result_of (map (pagamento_row G) ps)), d)))"

section \<open>Instances for evaluation\<close>

text \<open>
  A small stand-in for the two libraries, used where a statement is evaluated on concrete
  data: a token is the secret, a bar and the user id; a hash is the salt, a dollar sign
  and the password.
\<close>

definition toy_payload :: "jsval \<Rightarrow> string" where
  "toy_payload v = (case v of JObj [(k, JStr u)] \<Rightarrow> u | _ \<Rightarrow> [])"

definition toy_lib :: lib where
  "toy_lib =
     \<lparr>jwt_verify =
        (\<lambda>token secret now.
           case secret of
             None \<Rightarrow> None
           | Some k \<Rightarrow>
               (case strip_prefix (k @ ''|'') token of
                  None \<Rightarrow> None
                | Some u \<Rightarrow> Some (JObj [(''userId'', JStr u)]))),
      jwt_sign = (\<lambda>payload k expiresIn now. Some (k @ ''|'' @ toy_payload payload)),
      bcrypt_hash = (\<lambda>password s. s @ ''$'' @ password),
      bcrypt_compare =
        (\<lambda>password hash. drop 1 (dropWhile (\<lambda>ch. ch \<noteq> CHR ''$'') hash) = password)\<rparr>"

definition toy_env :: env where
  "toy_env = \<lparr>JWT_SECRET = Some ''k'', JWT_EXPIRES_IN = None, NODE_ENV = None\<rparr>"

definition toy_pg :: pg where
  "toy_pg =
     \<lparr>to_text = (\<lambda>v. ''?''),
      numeric_in = (\<lambda>t. map_option (\<lambda>(n, r). of_nat n) (read_number t)),
      date_in = (\<lambda>t. None),
      date_out = (\<lambda>d. JStr (show_nat (d_year d) @ ''-'' @ show_nat (d_month d) @ ''-''
                              @ show_nat (d_day d))),
      default_status = Some ''pendente'',
      server_row =
        [(''current_database'', JStr ''neondb''), (''current_user'', JStr ''app''),
         (''server_time'', JStr ''2024-01-01T00:00:00.000Z'')]\<rparr>"

definition toy_world :: world where
  "toy_world = \<lparr>clock = 0, salt = ''s''\<rparr>"

text \<open>
  A store with one user (\<open>ana\<close>, password \<open>secret1\<close>), one customer and two payments
  of that customer.
\<close>

definition toy_store :: store where
  "toy_store =
     \<lparr>usuarios =
        [\<lparr>u_id = ''1'', u_username = Some ''ana'', u_password_hash = Some ''s$secret1'',
          u_email = None\<rparr>],
      clientes =
        [\<lparr>c_id = ''1'', c_nome = Some ''Bia'', c_whatsapp = Some ''5511'', c_vencimento = None,
          c_plano = None, c_endereco = None\<rparr>],
      pagamentos =
        [\<lparr>p_id = ''1'', p_cliente_id = Some ''1'', p_valor = Some ''50'',
          p_data_vencimento = Some \<lparr>d_year = 2024, d_month = 3, d_day = 10\<rparr>,
          p_referencia = None, p_status = Some ''pago''\<rparr>,
         \<lparr>p_id = ''2'', p_cliente_id = Some ''1'', p_valor = Some ''50'',
          p_data_vencimento = Some \<lparr>d_year = 2024, d_month = 4, d_day = 10\<rparr>,
          p_referencia = None, p_status = Some ''pendente''\<rparr>],
      next_id = 3\<rparr>"

definition toy_conn :: "store conn" where
  "toy_conn = \<lparr>db = toy_store, issued = []\<rparr>"

definition toy_server :: "store server" where
  "toy_server = \<lparr>revokedTokens = {}, conn = toy_conn\<rparr>"

text \<open>A request with the given route, \<open>Authorization\<close> header and body.\<close>

definition request_of :: "route \<Rightarrow> string option \<Rightarrow> (string \<times> jsval) list \<Rightarrow> request" where
  "request_of r h b = \<lparr>route = r, authorization = h, body = b, param_id = [], query = []\<rparr>"

section \<open>Listing payments on the reference store\<close>

text \<open>
  \<open>GET /clientes/cid/pagamentos\<close> with the three query parameters (\<open>JUndefined\<close> for
  one that is not given), handled on the reference store with contents \<open>d\<close>.
\<close>

definition pagamentos_request :: "string \<Rightarrow> jsval \<Rightarrow> jsval \<Rightarrow> jsval \<Rightarrow> request" where
  "pagamentos_request cid st yr mo =
     \<lparr>route = GET_clientes_id_pagamentos, authorization = None, body = [], param_id = cid,
      query = [(''status'', st), (''year'', yr), (''month'', mo)]\<rparr>"

definition listing_response ::
  "pg \<Rightarrow> env \<Rightarrow> store \<Rightarrow> string \<Rightarrow> jsval \<Rightarrow> jsval \<Rightarrow> jsval \<Rightarrow> response" where
  "listing_response G E d cid st yr mo =
     fst (list_pagamentos E (mem_pool G) (pagamentos_request cid st yr mo)
            \<lparr>db = d, issued = []\<rparr>)"

text \<open>The rows of a successful listing; none when the answer is not a 200 with an array.\<close>

definition listed :: "response \<Rightarrow> jsval list" where
  "listed r = (if status r = 200 then (case json r of JArr xs \<Rightarrow> xs | _ \<Rightarrow> []) else [])"

definition payment_json :: "pg \<Rightarrow> pagamento \<Rightarrow> jsval" where
  "payment_json G p = JObj (pagamento_row G p)"

text \<open>The \<open>status\<close> property of a row of the response.\<close>

definition row_status :: "jsval \<Rightarrow> jsval" where
  "row_status x = (case x of JObj row \<Rightarrow> field row ''status'' | _ \<Rightarrow> JUndefined)"

text \<open>A list of payments in descending order of due date.\<close>

definition due_desc :: "pagamento list \<Rightarrow> bool" where
  "due_desc ps = sorted_wrt (\<lambda>a b. due_key b \<le> due_key a) ps"

text \<open>
  The clauses carried by the statement that \<open>pagamentos_query\<close> builds for the given
  filters, with their parameter numbers.
\<close>

definition clauses_of :: "jsval \<Rightarrow> jsval \<Rightarrow> jsval \<Rightarrow> clause list" where
  "clauses_of st yr mo =
     (if truthy st then [ByStatus 2] else []) @
     (if truthy yr then [ByYear (if truthy st then 3 else 2)] else []) @
     (if truthy mo then
        [ByMonth (if truthy st \<and> truthy yr then 4 else if truthy st \<or> truthy yr then 3 else 2)]
      else [])"

section \<open>The middleware: lemmas\<close>

lemma split_on_nonempty: "split_on c xs \<noteq> []"
  by (induction xs) (auto split: list.splits)

lemma split_on_word: "c \<notin> set w \<Longrightarrow> split_on c (w @ c # r) = w # split_on c r"
  by (induction w) (auto split: list.splits)

lemma bearer_token_scheme:
  assumes "CHR '' '' \<notin> set w"
  shows "bearer_token (Some (w @ '' '' @ r)) = Some (hd (split_on CHR '' '' r))"
proof -
  obtain x xs where "split_on CHR '' '' r = x # xs"
    using split_on_nonempty [of "CHR '' ''" r] by (cases "split_on CHR '' '' r") auto
  then show ?thesis
    using assms by (simp add: bearer_token_def at_index_def split_on_word)
qed

lemma bearer_token_toy:
  "bearer_token (Some ''Bearer k|ana'') = Some ''k|ana''"
  "bearer_token (Some ''Bearer zzz'') = Some ''zzz''"
  "bearer_token None = None"
  by (simp_all add: bearer_token_def at_index_def)

lemma toy_verify:
  "jwt_verify toy_lib ''k|ana'' (JWT_SECRET toy_env) n = Some (JObj [(''userId'', JStr ''ana'')])"
  "jwt_verify toy_lib ''zzz'' (JWT_SECRET toy_env) n = None"
  by (simp_all add: toy_lib_def toy_env_def strip_prefix_def)

lemma guard_next_token:
  "outcome (authenticateToken L E now revoked h) = Next u \<Longrightarrow>
     \<exists>t. bearer_token h = Some t \<and> t \<noteq> []"
  by (auto simp: authenticateToken_def split: option.splits if_splits)

lemma guard_toy_passes:
  "outcome (authenticateToken toy_lib toy_env n {} (Some ''Bearer k|ana'')) =
     Next (JObj [(''userId'', JStr ''ana'')])"
  by (simp add: authenticateToken_def bearer_token_toy toy_verify)

section \<open>The revoked set only grows\<close>

lemma run_store_revoked: "revokedTokens (snd (run_store h s)) = revokedTokens s"
  by (simp add: run_store_def split: prod.splits)

lemma handler_revoked: "revokedTokens s \<subseteq> revokedTokens (snd (handler v L E P w req r s))"
  by (cases r) (auto simp: run_store_revoked)

lemma serve_revoked: "revokedTokens s \<subseteq> revokedTokens (snd (serve v L E P s wr))"
  using handler_revoked [of s v L E P "fst wr" "snd wr" "route (snd wr)"]
  by (auto simp: serve_def split: prod.splits guard_outcome.splits)

lemma serve_all_revoked: "revokedTokens s \<subseteq> revokedTokens (serve_all v L E P s wrs)"
proof (induction wrs arbitrary: s)
  case Nil
  then show ?case by (simp add: serve_all_def)
next
  case (Cons wr wrs)
  have "revokedTokens s \<subseteq> revokedTokens (snd (serve v L E P s wr))"
    by (rule serve_revoked)
  also have "\<dots> \<subseteq> revokedTokens (serve_all v L E P (snd (serve v L E P s wr)) wrs)"
    by (rule Cons.IH)
  finally show ?case by (simp add: serve_all_def)
qed

lemma logout_revokes:
  assumes "route req = POST_logout"
    and "outcome (authenticateToken L E (clock w) (revokedTokens s) (authorization req)) = Next u"
  shows "bearer_token (authorization req) \<in> revokedTokens (snd (serve v L E P s (w, req)))"
  using assms by (simp add: serve_def routed_def)

section \<open>The statement of the payments listing: lemmas\<close>

lemma show_nat_digits [simp]:
  "show_nat 2 = ''2''" "show_nat 3 = ''3''" "show_nat 4 = ''4''"
  by (simp_all add: show_nat.simps digit_char_def)

lemma pagamentos_query_text:
  "pagamentos_query cid st yr mo =
     (''SELECT * FROM pagamentos WHERE cliente_id = $1''
        @ (if truthy st then '' AND status = $2'' else [])
        @ (if truthy yr then
             '' AND EXTRACT(YEAR FROM data_vencimento) = $'' @ (if truthy st then ''3'' else ''2'')
           else [])
        @ (if truthy mo then
             '' AND EXTRACT(MONTH FROM data_vencimento) = $''
               @ (if truthy st \<and> truthy yr then ''4''
                  else if truthy st \<or> truthy yr then ''3'' else ''2'')
           else [])
        @ '' ORDER BY data_vencimento DESC'',
      cid # filter truthy [st, yr, mo])"
  by (simp add: pagamentos_query_def sql_pagamentos_base_def)

lemma list_pagamentos_issued:
  assumes "P sql_cliente_exists [JStr (param_id req)] (db c) = (Inr r, d)"
    and "rowCount r \<noteq> 0"
  shows "issued (snd (list_pagamentos E P req c)) =
           issued c @ [(sql_cliente_exists, [JStr (param_id req)]),
                       pagamentos_query (JStr (param_id req)) (field (query req) ''status'')
                         (field (query req) ''year'') (field (query req) ''month'')]"
  using assms
  by (auto simp: list_pagamentos_def pool_query_def Let_def split: prod.splits sum.splits)

section \<open>The reference store: lemmas\<close>

lemma sql_eq_Some [simp]: "sql_eq a (Some x) = (a = Some x)"
  by (cases a) (auto simp: sql_eq_def)

lemma sql_eq_None [simp]: "sql_eq a None = False"
  by (cases a) (auto simp: sql_eq_def)

lemma read_listing_query:
  "read_listing (fst (pagamentos_query cid st yr mo)) = Some (clauses_of st yr mo)"
  unfolding pagamentos_query_text fst_conv
  by (cases "truthy st"; cases "truthy yr"; cases "truthy mo")
     (simp_all add: clauses_of_def read_listing_def sql_pagamentos_base_def strip_prefix_def
        read_clause_def read_number_def digit_value_def)

lemma mem_pool_listing:
  "mem_pool G (fst (pagamentos_query cid st yr mo)) ps d =
     (case select_pagamentos G (fst (pagamentos_query cid st yr mo)) ps d of
        Inl e \<Rightarrow> (Inl e, d)
      | Inr xs \<Rightarrow> (Inr (result_of (map (pagamento_row G) xs)), d))"
proof -
  have "fst (pagamentos_query cid st yr mo) \<notin>
          {''SELECT 1'', sql_server_info, sql_user_exists, sql_insert_user, sql_user_login,
           sql_user_id, sql_insert_user_novo, sql_clientes, sql_cliente_by_id,
           sql_insert_cliente, sql_cliente_exists, sql_insert_pagamento}"
    unfolding pagamentos_query_text fst_conv
    by (cases "truthy st"; cases "truthy yr"; cases "truthy mo") (simp_all add: sql_defs)
  then show ?thesis
    by (simp add: mem_pool_def Let_def)
qed

lemma mem_pool_cliente_exists:
  "mem_pool G sql_cliente_exists [JStr cid] d =
     (Inr (result_of (map (\<lambda>k. one_row) (clientes_with_id d (Some cid)))), d)"
  by (simp add: mem_pool_def sql_defs prepare_def)

lemma toy_cliente_exists:
  "mem_pool toy_pg sql_cliente_exists [JStr ''1''] toy_store =
     (Inr \<lparr>rowCount = 1, rows = [one_row]\<rparr>, toy_store)"
  by (simp add: mem_pool_cliente_exists clientes_with_id_def toy_store_def result_of_def)

lemma mem_pool_user_exists:
  "mem_pool G sql_user_exists [v] d =
     (Inr (result_of (map (\<lambda>u. one_row) (users_named d (prepare G v)))), d)"
  by (simp add: mem_pool_def sql_defs)

lemma mem_pool_user_login:
  "mem_pool G sql_user_login [v] d =
     (Inr (result_of
             (map (\<lambda>u. [(''id'', JStr (u_id u)),
                         (''password_hash'', nullable (u_password_hash u))])
                (users_named d (prepare G v)))),
      d)"
  by (simp add: mem_pool_def sql_defs)

lemma mem_pool_insert_cliente:
  "mem_pool G sql_insert_cliente vs d = insert_cliente (map (prepare G) vs) d"
  by (simp add: mem_pool_def sql_defs)

lemma list_pagamentos_mem:
  "fst (list_pagamentos E (mem_pool G) (pagamentos_request cid st yr mo) c) =
     (if clientes_with_id (db c) (Some cid) = [] then
        respond 404 (error_body msg_cliente_not_found)
      else
        (case select_pagamentos G (fst (pagamentos_query (JStr cid) st yr mo))
                (snd (pagamentos_query (JStr cid) st yr mo)) (db c) of
           Inl e \<Rightarrow>
             respond 500 (JObj [(''error'', JStr msg_pagamentos_failed), (''details'', details E e)])
         | Inr xs \<Rightarrow> respond 200 (JArr (map (payment_json G) xs))))"
proof -
  obtain qt qp where q: "pagamentos_query (JStr cid) st yr mo = (qt, qp)"
    by (cases "pagamentos_query (JStr cid) st yr mo")
  have m: "mem_pool G qt qp (db c) =
     (case select_pagamentos G qt qp (db c) of
        Inl e \<Rightarrow> (Inl e, db c)
      | Inr xs \<Rightarrow> (Inr (result_of (map (pagamento_row G) xs)), db c))"
    using mem_pool_listing [of G "JStr cid" st yr mo qp "db c"] by (simp add: q)
  show ?thesis
    by (simp add: list_pagamentos_def pool_query_def mem_pool_cliente_exists m q
        pagamentos_request_def field_def result_of_def payment_json_def [abs_def] comp_def
        split: sum.splits)
qed

lemma order_by_due_desc_mset: "mset (order_by_due_desc ps) = mset ps"
  by (simp add: order_by_due_desc_def)

lemma order_by_due_desc_set: "set (order_by_due_desc ps) = set ps"
  by (simp add: order_by_due_desc_def)

lemma order_by_due_desc_sorted: "due_desc (order_by_due_desc ps)"
proof -
  have "sorted (map due_key (sort_key due_key ps))" by simp
  then have "sorted_wrt (\<lambda>a b. due_key a \<le> due_key b) (sort_key due_key ps)"
    by (simp add: sorted_wrt_map)
  then show ?thesis
    by (simp add: due_desc_def order_by_due_desc_def sorted_wrt_rev)
qed

lemma select_query:
  "select_pagamentos G (fst (pagamentos_query (JStr cid) st yr mo))
     (snd (pagamentos_query (JStr cid) st yr mo)) d =
     (case bind_clauses G (JStr cid # filter truthy [st, yr, mo]) (clauses_of st yr mo) of
        Inl e \<Rightarrow> Inl e
      | Inr tests \<Rightarrow>
          Inr (order_by_due_desc
                 (filter (\<lambda>p. p_cliente_id p = Some cid \<and> list_all (\<lambda>t. t p) tests)
                    (pagamentos d))))"
proof -
  have p: "snd (pagamentos_query (JStr cid) st yr mo) = JStr cid # filter truthy [st, yr, mo]"
    by (simp add: pagamentos_query_text)
  have v: "prepare G (JStr cid) = Some cid"
    by (simp add: prepare_def)
  show ?thesis
    unfolding select_pagamentos_def read_listing_query p
    by (cases "bind_clauses G (JStr cid # filter truthy [st, yr, mo]) (clauses_of st yr mo)")
       (simp_all add: at_index_def v)
qed

lemma select_unfiltered:
  "\<not> truthy st \<Longrightarrow> \<not> truthy yr \<Longrightarrow> \<not> truthy mo \<Longrightarrow>
   select_pagamentos G (fst (pagamentos_query (JStr cid) st yr mo))
     (snd (pagamentos_query (JStr cid) st yr mo)) d =
     Inr (order_by_due_desc (filter (\<lambda>p. p_cliente_id p = Some cid) (pagamentos d)))"
  by (simp add: select_query clauses_of_def)

lemma select_status_only:
  "truthy st \<Longrightarrow> \<not> truthy yr \<Longrightarrow> \<not> truthy mo \<Longrightarrow>
   select_pagamentos G (fst (pagamentos_query (JStr cid) st yr mo))
     (snd (pagamentos_query (JStr cid) st yr mo)) d =
     Inr (order_by_due_desc
            (filter (\<lambda>p. p_cliente_id p = Some cid \<and> sql_eq (p_status p) (prepare G st))
               (pagamentos d)))"
  by (simp add: select_query clauses_of_def at_index_def)

lemma select_with_status:
  assumes "truthy st"
    and "select_pagamentos G (fst (pagamentos_query (JStr cid) st yr mo))
           (snd (pagamentos_query (JStr cid) st yr mo)) d = Inr xs"
  shows "set xs \<subseteq> {p \<in> set (pagamentos d).
                     p_cliente_id p = Some cid \<and> sql_eq (p_status p) (prepare G st)}"
  using assms
  by (auto simp: select_query clauses_of_def at_index_def order_by_due_desc_set
      split: sum.splits if_splits)

lemma select_any:
  assumes "select_pagamentos G (fst (pagamentos_query (JStr cid) st yr mo))
           (snd (pagamentos_query (JStr cid) st yr mo)) d = Inr xs"
  shows "set xs \<subseteq> {p \<in> set (pagamentos d). p_cliente_id p = Some cid}"
  using assms
  by (auto simp: select_query order_by_due_desc_set split: sum.splits)

lemma truthy_prepare: "truthy v \<Longrightarrow> \<exists>t. prepare G v = Some t"
  by (cases v) (auto simp: prepare_def)

lemma listed_respond [simp]:
  "listed (respond 200 (JArr xs)) = xs"
  "listed (respond 404 b) = []"
  "listed (respond 500 b) = []"
  by (simp_all add: listed_def respond_def)

lemma listing_narrows:
  assumes ex: "clientes_with_id d (Some cid) \<noteq> []"
  shows "set (listed (listing_response G E d cid st yr mo)) \<subseteq>
         set (listed (listing_response G E d cid st JUndefined JUndefined))"
proof (cases "select_pagamentos G (fst (pagamentos_query (JStr cid) st yr mo))
                (snd (pagamentos_query (JStr cid) st yr mo)) d")
  case (Inl e)
  then show ?thesis
    using ex by (simp add: listing_response_def list_pagamentos_mem)
next
  case (Inr xs)
  show ?thesis
  proof (cases "truthy st")
    case True
    have "set xs \<subseteq> {p \<in> set (pagamentos d).
                     p_cliente_id p = Some cid \<and> sql_eq (p_status p) (prepare G st)}"
      using True Inr by (rule select_with_status)
    then show ?thesis
      using ex Inr True
      by (auto simp: listing_response_def list_pagamentos_mem select_status_only
          order_by_due_desc_set)
  next
    case False
    have "set xs \<subseteq> {p \<in> set (pagamentos d). p_cliente_id p = Some cid}"
      using Inr by (rule select_any)
    then show ?thesis
      using ex Inr False
      by (auto simp: listing_response_def list_pagamentos_mem select_unfiltered
          order_by_due_desc_set)
  qed
qed


lemma row_status_payment: "row_status (payment_json G p) = nullable (p_status p)"
  by (simp add: row_status_def payment_json_def pagamento_row_def field_def)

lemma nullable_prepare:
  "truthy st \<Longrightarrow>
     nullable (prepare G st) = (case st of JStr t \<Rightarrow> JStr t | _ \<Rightarrow> JStr (to_text G st))"
  by (cases st) (simp_all add: prepare_def nullable_def)

lemma toy_login_lookup:
  "mem_pool toy_pg sql_user_login [JStr ''ana''] toy_store =
     (Inr \<lparr>rowCount = 1,
           rows = [[(''id'', JStr ''1''), (''password_hash'', JStr ''s$secret1'')]]\<rparr>,
      toy_store)"
  by (simp add: mem_pool_user_login users_named_def prepare_def toy_store_def result_of_def
      nullable_def)

lemma toy_no_cliente_9:
  "mem_pool toy_pg sql_cliente_exists [JStr ''9''] toy_store =
     (Inr \<lparr>rowCount = 0, rows = []\<rparr>, toy_store)"
  by (simp add: mem_pool_cliente_exists clientes_with_id_def toy_store_def result_of_def)

lemma toy_user_exists:
  "mem_pool toy_pg sql_user_exists [JStr ''ana''] toy_store =
     (Inr \<lparr>rowCount = 1, rows = [one_row]\<rparr>, toy_store)"
  by (simp add: mem_pool_user_exists users_named_def prepare_def toy_store_def result_of_def)

lemma toy_insert_cliente_refused:
  "mem_pool toy_pg sql_insert_cliente
     [JStr ''Caio'', JStr ''5511'', JUndefined, JUndefined, JUndefined] toy_store =
     (Inl (pg_error ''23505''), toy_store)"
  by (simp add: mem_pool_insert_cliente insert_cliente_def clientes_with_whatsapp_def
      prepare_def toy_store_def)

section \<open>Login: lemmas\<close>

lemma login_v1_missing_fields:
  "\<not> truthy (field (body req) ''username'') \<or> \<not> truthy (field (body req) ''password'') \<Longrightarrow>
     login_v1 L E P w req c = (respond 400 (error_body msg_fields_required), c)"
  by (auto simp: login_v1_def)

lemma login_v1_no_secret:
  assumes "JWT_SECRET E = None \<or> JWT_SECRET E = Some []"
  shows "fst (login_v1 L E P w req c) \<in>
           {respond 400 (error_body msg_fields_required),
            respond 401 (error_body msg_bad_credentials),
            respond 500 (error_body msg_login_failed),
            respond 500 (error_body msg_config_error)}"
proof (cases "P sql_user_login [field (body req) ''username''] (db c)")
  case (Pair a d)
  then show ?thesis
    using assms
    by (cases a)
       (auto simp: login_v1_def pool_query_def Let_def split: list.splits option.splits)
qed

lemma login_v2_no_secret:
  assumes "JWT_SECRET E = None \<or> JWT_SECRET E = Some []"
  shows "fst (login_v2 L E P w req c) \<in>
           {respond 401 (error_body msg_bad_credentials),
            respond 500 (error_body msg_login_failed)}"
proof (cases "P sql_user_login [field (body req) ''username''] (db c)")
  case (Pair a d)
  then show ?thesis
    using assms
    by (cases a)
       (auto simp: login_v2_def pool_query_def Let_def jwt_sign_call_def
          split: list.splits option.splits)
qed

lemma login_revoked:
  "route req = POST_login \<Longrightarrow>
     revokedTokens (snd (serve v L E P s (w, req))) = revokedTokens s"
  by (simp add: serve_def routed_def run_store_revoked)

section \<open>The authentication middleware: claims\<close>

text \<open>
  C1. For a request to a protected route the middleware has exactly one of four outcomes,
  tried in this order. When no token comes out of the \<open>Authorization\<close> header (the token
  expression is \<open>undefined\<close> or the empty string) the answer is 401 and \<open>jwt.verify\<close>
  is not called. Otherwise, when the token is in the revoked set, the answer is 403
  (session expired) and \<open>jwt.verify\<close> is not called. Otherwise \<open>jwt.verify\<close> is called
  once with the token: on an error the answer is 403 (invalid or expired), on success the
  decoded payload becomes \<open>req.user\<close>. On a protected route a rejection is the response
  and leaves the state of the process as it was; on success the handler of the route runs.
\<close>

theorem authenticateToken_outcomes:
  fixes s :: "'db server" and P :: "'db pool"
  shows
  "((bearer_token h = None \<or> bearer_token h = Some []) \<longrightarrow>
      authenticateToken L E now revoked h =
        \<lparr>outcome = Rejected (respond 401 (error_body msg_token_missing)), verify_calls = []\<rparr>) \<and>
   (bearer_token h = Some t \<and> t \<noteq> [] \<and> Some t \<in> revoked \<longrightarrow>
      authenticateToken L E now revoked h =
        \<lparr>outcome = Rejected (respond 403 (error_body msg_session_expired)),
         verify_calls = []\<rparr>) \<and>
   (bearer_token h = Some t \<and> t \<noteq> [] \<and> Some t \<notin> revoked \<and>
        jwt_verify L t (JWT_SECRET E) now = None \<longrightarrow>
      authenticateToken L E now revoked h =
        \<lparr>outcome = Rejected (respond 403 (error_body msg_token_invalid)),
         verify_calls = [t]\<rparr>) \<and>
   (bearer_token h = Some t \<and> t \<noteq> [] \<and> Some t \<notin> revoked \<and>
        jwt_verify L t (JWT_SECRET E) now = Some u \<longrightarrow>
      authenticateToken L E now revoked h = \<lparr>outcome = Next u, verify_calls = [t]\<rparr>) \<and>
   (routed v (route req) \<and> protected (route req) \<and>
      outcome (authenticateToken L E (clock w) (revokedTokens s) (authorization req)) =
        Rejected resp \<longrightarrow>
      serve v L E P s (w, req) = (resp, s)) \<and>
   (routed v (route req) \<and> protected (route req) \<and>
      outcome (authenticateToken L E (clock w) (revokedTokens s) (authorization req)) =
        Next u \<longrightarrow>
      serve v L E P s (w, req) = handler v L E P w req (route req) s)"
  by (auto simp: authenticateToken_def serve_def)

theorem authenticateToken_outcomes_witness:
  "authenticateToken toy_lib toy_env 0 {} None =
     \<lparr>outcome = Rejected (respond 401 (error_body msg_token_missing)), verify_calls = []\<rparr> \<and>
   authenticateToken toy_lib toy_env 0 {Some ''k|ana''} (Some ''Bearer k|ana'') =
     \<lparr>outcome = Rejected (respond 403 (error_body msg_session_expired)), verify_calls = []\<rparr> \<and>
   authenticateToken toy_lib toy_env 0 {} (Some ''Bearer zzz'') =
     \<lparr>outcome = Rejected (respond 403 (error_body msg_token_invalid)),
      verify_calls = [''zzz'']\<rparr> \<and>
   authenticateToken toy_lib toy_env 0 {} (Some ''Bearer k|ana'') =
     \<lparr>outcome = Next (JObj [(''userId'', JStr ''ana'')]), verify_calls = [''k|ana'']\<rparr> \<and>
   serve V1 toy_lib toy_env (mem_pool toy_pg) toy_server
       (toy_world, request_of GET_clientes (Some ''Bearer zzz'') []) =
     (respond 403 (error_body msg_token_invalid), toy_server) \<and>
   serve V1 toy_lib toy_env (mem_pool toy_pg) toy_server
       (toy_world, request_of GET_clientes (Some ''Bearer k|ana'') []) =
     handler V1 toy_lib toy_env (mem_pool toy_pg) toy_world
       (request_of GET_clientes (Some ''Bearer k|ana'') []) GET_clientes toy_server"
proof -
  have r: "routed V1 GET_clientes" "route (request_of GET_clientes a b) = GET_clientes"
    "authorization (request_of GET_clientes a b) = a"
    "clock toy_world = 0" "revokedTokens toy_server = {}" for a b
    by (simp_all add: routed_def toy_world_def toy_server_def request_of_def)
  note a = authenticateToken_outcomes [where L = toy_lib and E = toy_env]
  have 1: "authenticateToken toy_lib toy_env 0 {} None =
     \<lparr>outcome = Rejected (respond 401 (error_body msg_token_missing)), verify_calls = []\<rparr>"
    by (rule a [THEN conjunct1, THEN mp]) (simp add: bearer_token_toy)
  have 2: "authenticateToken toy_lib toy_env 0 {Some ''k|ana''} (Some ''Bearer k|ana'') =
     \<lparr>outcome = Rejected (respond 403 (error_body msg_session_expired)), verify_calls = []\<rparr>"
    by (rule a [where t = "''k|ana''", THEN conjunct2, THEN conjunct1, THEN mp])
       (simp add: bearer_token_toy)
  have 3: "authenticateToken toy_lib toy_env 0 {} (Some ''Bearer zzz'') =
     \<lparr>outcome = Rejected (respond 403 (error_body msg_token_invalid)),
      verify_calls = [''zzz'']\<rparr>"
    by (rule a [THEN conjunct2, THEN conjunct2, THEN conjunct1, THEN mp])
       (simp add: bearer_token_toy toy_verify)
  have 4: "authenticateToken toy_lib toy_env 0 {} (Some ''Bearer k|ana'') =
     \<lparr>outcome = Next (JObj [(''userId'', JStr ''ana'')]), verify_calls = [''k|ana'']\<rparr>"
    by (rule a [THEN conjunct2, THEN conjunct2, THEN conjunct2, THEN conjunct1, THEN mp])
       (simp add: bearer_token_toy toy_verify)
  have 5: "serve V1 toy_lib toy_env (mem_pool toy_pg) toy_server
       (toy_world, request_of GET_clientes (Some ''Bearer zzz'') []) =
     (respond 403 (error_body msg_token_invalid), toy_server)"
    by (rule a [THEN conjunct2, THEN conjunct2, THEN conjunct2, THEN conjunct2,
                THEN conjunct1, THEN mp])
       (simp add: r 3)
  have 6: "serve V1 toy_lib toy_env (mem_pool toy_pg) toy_server
       (toy_world, request_of GET_clientes (Some ''Bearer k|ana'') []) =
     handler V1 toy_lib toy_env (mem_pool toy_pg) toy_world
       (request_of GET_clientes (Some ''Bearer k|ana'') []) GET_clientes toy_server"
    using a [where v = V1 and req = "request_of GET_clientes (Some ''Bearer k|ana'') []"
               and w = toy_world and s = toy_server and P = "mem_pool toy_pg"
               and u = "JObj [(''userId'', JStr ''ana'')]",
             THEN conjunct2, THEN conjunct2, THEN conjunct2, THEN conjunct2, THEN conjunct2]
    by (simp add: r 4)
  from 1 2 3 4 5 6 show ?thesis by blast
qed

text \<open>
  C2. Once a logout has passed the middleware, the token of that request is in the revoked
  set and stays there whatever requests follow. From then on the middleware answers every
  check of a header that carries the same token with 403 (session expired), without
  calling \<open>jwt.verify\<close>, so also when the token would still verify; a request with that
  header to a protected route gets that answer and changes nothing.
\<close>

theorem revoked_token_stays_forbidden:
  assumes logout: "route req = POST_logout"
    and passed:
      "outcome (authenticateToken L E (clock w) (revokedTokens s) (authorization req)) = Next u"
    and later: "s' = serve_all v L E P (snd (serve v L E P s (w, req))) wrs"
    and same: "bearer_token h = bearer_token (authorization req)"
  shows "authenticateToken L' E' now (revokedTokens s') h =
           \<lparr>outcome = Rejected (respond 403 (error_body msg_session_expired)),
            verify_calls = []\<rparr> \<and>
         (protected (route req') \<and> routed v (route req') \<and> authorization req' = h \<longrightarrow>
            serve v L E P s' (w', req') =
              (respond 403 (error_body msg_session_expired), s'))"
proof -
  obtain t where t: "bearer_token (authorization req) = Some t" "t \<noteq> []"
    using guard_next_token [OF passed] by blast
  have "bearer_token (authorization req) \<in> revokedTokens (snd (serve v L E P s (w, req)))"
    using logout passed by (rule logout_revokes)
  then have "Some t \<in> revokedTokens s'"
    using serve_all_revoked [of "snd (serve v L E P s (w, req))" v L E P wrs] later t by auto
  then have g: "\<And>L' E' now. authenticateToken L' E' now (revokedTokens s') h =
           \<lparr>outcome = Rejected (respond 403 (error_body msg_session_expired)),
            verify_calls = []\<rparr>"
    using same t by (simp add: authenticateToken_def)
  show ?thesis
    by (simp add: g serve_def)
qed

theorem revoked_token_stays_forbidden_witness:
  "authenticateToken toy_lib toy_env 7
     (revokedTokens
        (serve_all V1 toy_lib toy_env (mem_pool toy_pg)
           (snd (serve V1 toy_lib toy_env (mem_pool toy_pg) toy_server
                   (toy_world, request_of POST_logout (Some ''Bearer k|ana'') [])))
           [(toy_world, request_of GET_clientes (Some ''Bearer k|ana'') [])]))
     (Some ''Basic k|ana'') =
     \<lparr>outcome = Rejected (respond 403 (error_body msg_session_expired)), verify_calls = []\<rparr> \<and>
   serve V1 toy_lib toy_env (mem_pool toy_pg)
     (serve_all V1 toy_lib toy_env (mem_pool toy_pg)
        (snd (serve V1 toy_lib toy_env (mem_pool toy_pg) toy_server
                (toy_world, request_of POST_logout (Some ''Bearer k|ana'') [])))
        [(toy_world, request_of GET_clientes (Some ''Bearer k|ana'') [])])
     (toy_world, request_of POST_pagamentos (Some ''Basic k|ana'') []) =
     (respond 403 (error_body msg_session_expired),
      serve_all V1 toy_lib toy_env (mem_pool toy_pg)
        (snd (serve V1 toy_lib toy_env (mem_pool toy_pg) toy_server
                (toy_world, request_of POST_logout (Some ''Bearer k|ana'') [])))
        [(toy_world, request_of GET_clientes (Some ''Bearer k|ana'') [])])"
proof -
  have 1: "route (request_of POST_logout (Some ''Bearer k|ana'') []) = POST_logout"
    by (simp add: request_of_def)
  have 2: "outcome (authenticateToken toy_lib toy_env (clock toy_world)
             (revokedTokens toy_server)
             (authorization (request_of POST_logout (Some ''Bearer k|ana'') []))) =
           Next (JObj [(''userId'', JStr ''ana'')])"
    by (simp add: request_of_def toy_server_def guard_toy_passes)
  have 3: "bearer_token (Some ''Basic k|ana'') =
           bearer_token (authorization (request_of POST_logout (Some ''Bearer k|ana'') []))"
    by (simp add: request_of_def bearer_token_def at_index_def)
  have 4: "protected (route (request_of POST_pagamentos (Some ''Basic k|ana'') [])) \<and>
           routed V1 (route (request_of POST_pagamentos (Some ''Basic k|ana'') [])) \<and>
           authorization (request_of POST_pagamentos (Some ''Basic k|ana'') []) =
             Some ''Basic k|ana''"
    by (simp add: request_of_def routed_def)
  show ?thesis
    using revoked_token_stays_forbidden [OF 1 2 refl 3,
        where req' = "request_of POST_pagamentos (Some ''Basic k|ana'') []"] 4
    by blast
qed

text \<open>
  C9 (as the code has it). The middleware never looks at the first word of the
  \<open>Authorization\<close> header: the token is the second piece of the header cut at single
  spaces. A header whose first word is any word without a space, \<open>Basic\<close> for one, is
  handled exactly as the header \<open>Bearer\<close> followed by the same rest, so it is accepted
  when its token verifies and is not revoked.
\<close>

theorem guard_ignores_scheme:
  "CHR '' '' \<notin> set w \<Longrightarrow>
     authenticateToken L E now revoked (Some (w @ '' '' @ r)) =
     authenticateToken L E now revoked (Some (''Bearer '' @ r))"
proof -
  assume w: "CHR '' '' \<notin> set w"
  have "bearer_token (Some (w @ '' '' @ r)) = bearer_token (Some (''Bearer'' @ '' '' @ r))"
    using bearer_token_scheme [OF w] bearer_token_scheme [of "''Bearer''" r] by simp
  then show ?thesis by (simp add: authenticateToken_def)
qed

theorem guard_ignores_scheme_witness:
  "CHR '' '' \<notin> set ''Basic'' \<and>
   authenticateToken toy_lib toy_env 0 {} (Some ''Basic k|ana'') =
   authenticateToken toy_lib toy_env 0 {} (Some ''Bearer k|ana'')"
  using guard_ignores_scheme [of "''Basic''" toy_lib toy_env 0 "{}" "''k|ana''"] by simp

text \<open>
  The claim C9 as the specification states it fails: a request with the header
  \<open>Basic k|ana\<close>, whose second word is a token that verifies, passes the middleware.
\<close>

theorem basic_scheme_accepted:
  "outcome (authenticateToken toy_lib toy_env 0 {} (Some ''Basic k|ana'')) =
     Next (JObj [(''userId'', JStr ''ana'')])"
  by (simp add: authenticateToken_def bearer_token_def at_index_def toy_verify)

section \<open>The payments listing: claims\<close>

text \<open>
  C3. The statement of the payments listing is the base statement on
  \<open>cliente_id = $1\<close>, followed by the clause on the status, then the clause on the year,
  then the clause on the month, each present exactly when its filter is truthy in the
  request (so only when it is present) and joined with \<open>AND\<close>, followed by
  \<open>ORDER BY data_vencimento DESC\<close>. The values travel in the parameter list, in the
  same order after the customer id, and the clauses refer to them by number; the text
  depends only on which filters are present, never on a value. When the customer exists,
  this statement with these parameters is what the handler sends after the existence
  check.
\<close>

theorem pagamentos_query_shape:
  "pagamentos_query cid st yr mo =
     (''SELECT * FROM pagamentos WHERE cliente_id = $1''
        @ (if truthy st then '' AND status = $2'' else [])
        @ (if truthy yr then
             '' AND EXTRACT(YEAR FROM data_vencimento) = $'' @ (if truthy st then ''3'' else ''2'')
           else [])
        @ (if truthy mo then
             '' AND EXTRACT(MONTH FROM data_vencimento) = $''
               @ (if truthy st \<and> truthy yr then ''4''
                  else if truthy st \<or> truthy yr then ''3'' else ''2'')
           else [])
        @ '' ORDER BY data_vencimento DESC'',
      cid # filter truthy [st, yr, mo]) \<and>
   (truthy st = truthy st' \<and> truthy yr = truthy yr' \<and> truthy mo = truthy mo' \<longrightarrow>
      fst (pagamentos_query cid st yr mo) = fst (pagamentos_query cid' st' yr' mo')) \<and>
   (P sql_cliente_exists [JStr (param_id req)] (db c) = (Inr r, d) \<and> rowCount r \<noteq> 0 \<longrightarrow>
      issued (snd (list_pagamentos E P req c)) =
        issued c @ [(sql_cliente_exists, [JStr (param_id req)]),
                    pagamentos_query (JStr (param_id req)) (field (query req) ''status'')
                      (field (query req) ''year'') (field (query req) ''month'')])"
proof (intro conjI impI)
  show "pagamentos_query cid st yr mo =
     (''SELECT * FROM pagamentos WHERE cliente_id = $1''
        @ (if truthy st then '' AND status = $2'' else [])
        @ (if truthy yr then
             '' AND EXTRACT(YEAR FROM data_vencimento) = $'' @ (if truthy st then ''3'' else ''2'')
           else [])
        @ (if truthy mo then
             '' AND EXTRACT(MONTH FROM data_vencimento) = $''
               @ (if truthy st \<and> truthy yr then ''4''
                  else if truthy st \<or> truthy yr then ''3'' else ''2'')
           else [])
        @ '' ORDER BY data_vencimento DESC'',
      cid # filter truthy [st, yr, mo])"
    by (rule pagamentos_query_text)
next
  assume "truthy st = truthy st' \<and> truthy yr = truthy yr' \<and> truthy mo = truthy mo'"
  then show "fst (pagamentos_query cid st yr mo) = fst (pagamentos_query cid' st' yr' mo')"
    by (simp add: pagamentos_query_text)
next
  assume "P sql_cliente_exists [JStr (param_id req)] (db c) = (Inr r, d) \<and> rowCount r \<noteq> 0"
  then show "issued (snd (list_pagamentos E P req c)) =
        issued c @ [(sql_cliente_exists, [JStr (param_id req)]),
                    pagamentos_query (JStr (param_id req)) (field (query req) ''status'')
                      (field (query req) ''year'') (field (query req) ''month'')]"
    using list_pagamentos_issued [of P req c r d E] by simp
qed

theorem pagamentos_query_shape_witness:
  "pagamentos_query (JStr ''1'') (JStr ''pago'') JUndefined (JStr ''3'') =
     (''SELECT * FROM pagamentos WHERE cliente_id = $1 AND status = $2 AND EXTRACT(MONTH FROM data_vencimento) = $3 ORDER BY data_vencimento DESC'',
      [JStr ''1'', JStr ''pago'', JStr ''3'']) \<and>
   fst (pagamentos_query (JStr ''1'') (JStr ''pago'') JUndefined (JStr ''3'')) =
   fst (pagamentos_query (JStr ''2'') (JStr ''x'' ) JNull (JStr ''12'')) \<and>
   issued (snd (list_pagamentos toy_env (mem_pool toy_pg)
                  (pagamentos_request ''1'' (JStr ''pago'') JUndefined (JStr ''3'')) toy_conn)) =
     [(sql_cliente_exists, [JStr ''1'']),
      pagamentos_query (JStr ''1'') (JStr ''pago'') JUndefined (JStr ''3'')]"
proof -
  note t = pagamentos_query_shape [where cid = "JStr ''1''" and st = "JStr ''pago''"
      and yr = JUndefined and mo = "JStr ''3''"]
  have 1: "pagamentos_query (JStr ''1'') (JStr ''pago'') JUndefined (JStr ''3'') =
     (''SELECT * FROM pagamentos WHERE cliente_id = $1 AND status = $2 AND EXTRACT(MONTH FROM data_vencimento) = $3 ORDER BY data_vencimento DESC'',
      [JStr ''1'', JStr ''pago'', JStr ''3''])"
    using t [THEN conjunct1] by simp
  have 2: "fst (pagamentos_query (JStr ''1'') (JStr ''pago'') JUndefined (JStr ''3'')) =
           fst (pagamentos_query (JStr ''2'') (JStr ''x'' ) JNull (JStr ''12''))"
    by (rule t [THEN conjunct2, THEN conjunct1, THEN mp]) simp
  have e: "mem_pool toy_pg sql_cliente_exists
             [JStr (param_id (pagamentos_request ''1'' (JStr ''pago'') JUndefined (JStr ''3'')))]
             (db toy_conn) = (Inr \<lparr>rowCount = 1, rows = [one_row]\<rparr>, toy_store) \<and>
           rowCount \<lparr>rowCount = 1, rows = [one_row]\<rparr> \<noteq> 0"
    by (simp add: pagamentos_request_def toy_conn_def toy_cliente_exists)
  have 3: "issued (snd (list_pagamentos toy_env (mem_pool toy_pg)
                  (pagamentos_request ''1'' (JStr ''pago'') JUndefined (JStr ''3'')) toy_conn)) =
     [(sql_cliente_exists, [JStr ''1'']),
      pagamentos_query (JStr ''1'') (JStr ''pago'') JUndefined (JStr ''3'')]"
    using t [where P = "mem_pool toy_pg" and c = toy_conn and E = toy_env
          and req = "pagamentos_request ''1'' (JStr ''pago'') JUndefined (JStr ''3'')"
          and r = "\<lparr>rowCount = 1, rows = [one_row]\<rparr>" and d = toy_store,
        THEN conjunct2, THEN conjunct2, THEN mp, OF e]
    by (simp add: pagamentos_request_def toy_conn_def field_def)
  from 1 2 3 show ?thesis by blast
qed

text \<open>
  C5. When the existence check finds no customer with the id of the request, the listing
  answers 404 with the not-found error (so never an empty list) and sends nothing else to
  the store: the existence check is the only statement issued. This holds for any store
  that answers the check with zero rows, and on the reference store whenever no customer
  has that id.
\<close>

theorem missing_cliente_not_found:
  fixes c :: "'db conn" and P :: "'db pool" and c' :: "store conn"
  shows
  "(P sql_cliente_exists [JStr (param_id req)] (db c) = (Inr r, d) \<and> rowCount r = 0 \<longrightarrow>
      list_pagamentos E P req c =
        (respond 404 (error_body msg_cliente_not_found),
         \<lparr>db = d, issued = issued c @ [(sql_cliente_exists, [JStr (param_id req)])]\<rparr>)) \<and>
   (clientes_with_id (db c') (Some (param_id req)) = [] \<longrightarrow>
      list_pagamentos E (mem_pool G) req c' =
        (respond 404 (error_body msg_cliente_not_found),
         \<lparr>db = db c', issued = issued c' @ [(sql_cliente_exists, [JStr (param_id req)])]\<rparr>))"
  by (simp add: list_pagamentos_def pool_query_def mem_pool_cliente_exists result_of_def)

theorem missing_cliente_not_found_witness:
  "clientes_with_id (db toy_conn) (Some ''9'') = [] \<and>
   list_pagamentos toy_env (mem_pool toy_pg)
       (pagamentos_request ''9'' (JStr ''pago'') JUndefined JUndefined) toy_conn =
     (respond 404 (error_body msg_cliente_not_found),
      \<lparr>db = toy_store, issued = [(sql_cliente_exists, [JStr ''9''])]\<rparr>) \<and>
   mem_pool toy_pg sql_cliente_exists [JStr ''9''] toy_store =
     (Inr \<lparr>rowCount = 0, rows = []\<rparr>, toy_store) \<and>
   list_pagamentos (toy_env\<lparr>NODE_ENV := Some ''development''\<rparr>) (mem_pool toy_pg)
       (pagamentos_request ''9'' JUndefined JUndefined JUndefined) toy_conn =
     (respond 404 (error_body msg_cliente_not_found),
      \<lparr>db = toy_store, issued = [(sql_cliente_exists, [JStr ''9''])]\<rparr>)"
proof -
  have e: "clientes_with_id (db toy_conn) (Some ''9'') = []"
    by (simp add: clientes_with_id_def toy_conn_def toy_store_def)
  have p: "param_id (pagamentos_request ''9'' a b c) = ''9''" for a b c
    by (simp add: pagamentos_request_def)
  have 1: "list_pagamentos toy_env (mem_pool toy_pg)
       (pagamentos_request ''9'' (JStr ''pago'') JUndefined JUndefined) toy_conn =
     (respond 404 (error_body msg_cliente_not_found),
      \<lparr>db = toy_store, issued = [(sql_cliente_exists, [JStr ''9''])]\<rparr>)"
    using missing_cliente_not_found
      [where req = "pagamentos_request ''9'' (JStr ''pago'') JUndefined JUndefined"
         and c' = toy_conn and G = toy_pg and E = toy_env, THEN conjunct2] e
    by (simp add: p toy_conn_def)
  have 2: "list_pagamentos (toy_env\<lparr>NODE_ENV := Some ''development''\<rparr>) (mem_pool toy_pg)
       (pagamentos_request ''9'' JUndefined JUndefined JUndefined) toy_conn =
     (respond 404 (error_body msg_cliente_not_found),
      \<lparr>db = toy_store, issued = [(sql_cliente_exists, [JStr ''9''])]\<rparr>)"
    using missing_cliente_not_found
      [where req = "pagamentos_request ''9'' JUndefined JUndefined JUndefined"
         and c = toy_conn and P = "mem_pool toy_pg"
         and r = "\<lparr>rowCount = 0, rows = []\<rparr>" and d = toy_store
         and E = "toy_env\<lparr>NODE_ENV := Some ''development''\<rparr>", THEN conjunct1]
      toy_no_cliente_9
    by (simp add: p toy_conn_def)
  from e 1 2 toy_no_cliente_9 show ?thesis by blast
qed

text \<open>
  C4 (as the code has it), on the reference store, for a customer that exists. The
  listing without filters returns all payments of the customer, latest due date first.
  With a status filter whose value is truthy (for a string: not empty) it returns exactly
  the customer's payments whose status is the value sent for the filter, again latest due
  date first; every row of the response carries that status and the rows are among those
  of the unfiltered listing. The rows returned with status, year and month are among the
  rows returned with the status alone (when a year or month does not read as a number the
  store refuses the statement, the answer is 500 and no row is returned).
\<close>

theorem listing_filters_narrow:
  assumes ex: "clientes_with_id d (Some cid) \<noteq> []"
  shows
  "(\<exists>ps. listing_response G E d cid JUndefined JUndefined JUndefined =
           respond 200 (JArr (map (payment_json G) ps)) \<and>
         mset ps = mset (filter (\<lambda>p. p_cliente_id p = Some cid) (pagamentos d)) \<and>
         due_desc ps) \<and>
   (truthy st \<longrightarrow>
      (\<exists>ps. listing_response G E d cid st JUndefined JUndefined =
              respond 200 (JArr (map (payment_json G) ps)) \<and>
            mset ps =
              mset (filter (\<lambda>p. p_cliente_id p = Some cid \<and> p_status p = prepare G st)
                      (pagamentos d)) \<and>
            due_desc ps \<and>
            (\<forall>x \<in> set (listed (listing_response G E d cid st JUndefined JUndefined)).
               row_status x = (case st of JStr t \<Rightarrow> JStr t | _ \<Rightarrow> JStr (to_text G st)))) \<and>
      set (listed (listing_response G E d cid st JUndefined JUndefined)) \<subseteq>
      set (listed (listing_response G E d cid JUndefined JUndefined JUndefined))) \<and>
   set (listed (listing_response G E d cid st yr mo)) \<subseteq>
   set (listed (listing_response G E d cid st JUndefined JUndefined))"
proof (intro conjI impI)
  let ?all = "order_by_due_desc (filter (\<lambda>p. p_cliente_id p = Some cid) (pagamentos d))"
  have r0: "listing_response G E d cid JUndefined JUndefined JUndefined =
              respond 200 (JArr (map (payment_json G) ?all))"
    using ex by (simp add: listing_response_def list_pagamentos_mem select_unfiltered)
  show "\<exists>ps. listing_response G E d cid JUndefined JUndefined JUndefined =
           respond 200 (JArr (map (payment_json G) ps)) \<and>
         mset ps = mset (filter (\<lambda>p. p_cliente_id p = Some cid) (pagamentos d)) \<and>
         due_desc ps"
    using r0 order_by_due_desc_mset order_by_due_desc_sorted by blast
  show "set (listed (listing_response G E d cid st yr mo)) \<subseteq>
        set (listed (listing_response G E d cid st JUndefined JUndefined))"
    using ex by (rule listing_narrows)
  assume st: "truthy st"
  then obtain t where t: "prepare G st = Some t"
    using truthy_prepare by blast
  let ?some = "order_by_due_desc
      (filter (\<lambda>p. p_cliente_id p = Some cid \<and> p_status p = prepare G st) (pagamentos d))"
  have r1: "listing_response G E d cid st JUndefined JUndefined =
              respond 200 (JArr (map (payment_json G) ?some))"
    using ex st by (simp add: listing_response_def list_pagamentos_mem select_status_only t)
  have s1: "\<forall>x \<in> set (listed (listing_response G E d cid st JUndefined JUndefined)).
               row_status x = (case st of JStr t \<Rightarrow> JStr t | _ \<Rightarrow> JStr (to_text G st))"
    using nullable_prepare [OF st, of G]
    by (auto simp: r1 order_by_due_desc_set row_status_payment)
  show "\<exists>ps. listing_response G E d cid st JUndefined JUndefined =
              respond 200 (JArr (map (payment_json G) ps)) \<and>
            mset ps =
              mset (filter (\<lambda>p. p_cliente_id p = Some cid \<and> p_status p = prepare G st)
                      (pagamentos d)) \<and>
            due_desc ps \<and>
            (\<forall>x \<in> set (listed (listing_response G E d cid st JUndefined JUndefined)).
               row_status x = (case st of JStr t \<Rightarrow> JStr t | _ \<Rightarrow> JStr (to_text G st)))"
    using r1 s1 order_by_due_desc_mset order_by_due_desc_sorted by blast
  show "set (listed (listing_response G E d cid st JUndefined JUndefined)) \<subseteq>
        set (listed (listing_response G E d cid JUndefined JUndefined JUndefined))"
    by (auto simp: r0 r1 order_by_due_desc_set)
qed

theorem listing_filters_narrow_witness:
  "clientes_with_id toy_store (Some ''1'') \<noteq> [] \<and> truthy (JStr ''pago'') \<and>
   (\<exists>ps. listing_response toy_pg toy_env toy_store ''1'' JUndefined JUndefined JUndefined =
           respond 200 (JArr (map (payment_json toy_pg) ps)) \<and>
         mset ps = mset (filter (\<lambda>p. p_cliente_id p = Some ''1'') (pagamentos toy_store)) \<and>
         due_desc ps) \<and>
   (\<exists>ps. listing_response toy_pg toy_env toy_store ''1'' (JStr ''pago'') JUndefined JUndefined =
           respond 200 (JArr (map (payment_json toy_pg) ps)) \<and>
         mset ps =
           mset (filter (\<lambda>p. p_cliente_id p = Some ''1'' \<and> p_status p = Some ''pago'')
                   (pagamentos toy_store)) \<and>
         due_desc ps \<and>
         (\<forall>x \<in> set (listed (listing_response toy_pg toy_env toy_store ''1'' (JStr ''pago'')
                             JUndefined JUndefined)).
            row_status x = JStr ''pago'')) \<and>
   set (listed (listing_response toy_pg toy_env toy_store ''1'' (JStr ''pago'')
                  JUndefined JUndefined)) \<subseteq>
   set (listed (listing_response toy_pg toy_env toy_store ''1'' JUndefined JUndefined
                  JUndefined)) \<and>
   set (listed (listing_response toy_pg toy_env toy_store ''1'' (JStr ''pago'') (JStr ''2024'')
                  (JStr ''3''))) \<subseteq>
   set (listed (listing_response toy_pg toy_env toy_store ''1'' (JStr ''pago'')
                  JUndefined JUndefined))"
proof -
  have e: "clientes_with_id toy_store (Some ''1'') \<noteq> []"
    by (simp add: clientes_with_id_def toy_store_def)
  have p: "prepare toy_pg (JStr ''pago'') = Some ''pago''"
    by (simp add: prepare_def)
  show ?thesis
    using listing_filters_narrow [OF e, of toy_pg toy_env "JStr ''pago''" "JStr ''2024''"
        "JStr ''3''"] e
    by (simp add: p)
qed

text \<open>
  The claim C4 as the specification states it fails for the empty status value: the
  handler skips a filter whose value is the empty string, so \<open>?status=\<close> lists the
  payments of every status, none of which equals the filter value.
\<close>

theorem empty_status_filter_ignored:
  "map row_status
     (listed (listing_response toy_pg toy_env toy_store ''1'' (JStr []) JUndefined JUndefined)) =
   [JStr ''pendente'', JStr ''pago'']"
  by code_simp

section \<open>Conflicts: claims\<close>

text \<open>
  Duplicates that the handlers do turn into a conflict. A signup whose lookup finds the
  user name is answered 400 with the message that the user exists; only the lookup is sent,
  so nothing is inserted. A customer creation whose WhatsApp number is already in
  \<open>clientes\<close> is answered 400 with the message that the number is registered, and the
  store is left as it was. For any store: a lookup that finds the user name gives the 400
  without an \<open>INSERT\<close>, and an \<open>INSERT INTO clientes\<close> refused with code
  \<open>23505\<close> gives the 400.
\<close>

lemma duplicates_are_conflicts:
  fixes c :: "store conn" and P :: "'db pool" and k :: "'db conn"
  shows
  "(users_named (db c) (prepare G (field (body req) ''username'')) \<noteq> [] \<longrightarrow>
      signup L (mem_pool G) w req c =
        (respond 400 (error_body msg_user_exists),
         \<lparr>db = db c,
          issued = issued c @ [(sql_user_exists, [field (body req) ''username''])]\<rparr>)) \<and>
   (clientes_with_whatsapp (db c) (prepare G (field (body req) ''whatsapp'')) \<noteq> [] \<longrightarrow>
      create_cliente (mem_pool G) req c =
        (respond 400 (error_body msg_whatsapp_taken),
         \<lparr>db = db c,
          issued = issued c @
            [(sql_insert_cliente,
              [field (body req) ''nome'', field (body req) ''whatsapp'',
               field (body req) ''vencimento'', field (body req) ''plano'',
               field (body req) ''endereco''])]\<rparr>)) \<and>
   (P sql_user_exists [field (body req) ''username''] (db k) = (Inr r, d) \<and> rowCount r > 0 \<longrightarrow>
      signup L P w req k =
        (respond 400 (error_body msg_user_exists),
         \<lparr>db = d, issued = issued k @ [(sql_user_exists, [field (body req) ''username''])]\<rparr>)) \<and>
   (P sql_insert_cliente
        [field (body req) ''nome'', field (body req) ''whatsapp'',
         field (body req) ''vencimento'', field (body req) ''plano'',
         field (body req) ''endereco''] (db k) = (Inl e, d) \<and>
      err_code e = Some ''23505'' \<longrightarrow>
      fst (create_cliente P req k) = respond 400 (error_body msg_whatsapp_taken))"
  by (simp add: signup_def create_cliente_def pool_query_def mem_pool_user_exists
      mem_pool_insert_cliente insert_cliente_def result_of_def pg_error_def Let_def)

lemma duplicates_are_conflicts_toy:
  "users_named (db toy_conn) (prepare toy_pg (JStr ''ana'')) \<noteq> [] \<and>
   signup toy_lib (mem_pool toy_pg) toy_world
       (request_of POST_signup None [(''username'', JStr ''ana''), (''password'', JStr ''pw'')])
       toy_conn =
     (respond 400 (error_body msg_user_exists),
      \<lparr>db = toy_store, issued = [(sql_user_exists, [JStr ''ana''])]\<rparr>) \<and>
   clientes_with_whatsapp (db toy_conn) (prepare toy_pg (JStr ''5511'')) \<noteq> [] \<and>
   create_cliente (mem_pool toy_pg)
       (request_of POST_clientes None [(''nome'', JStr ''Caio''), (''whatsapp'', JStr ''5511'')])
       toy_conn =
     (respond 400 (error_body msg_whatsapp_taken),
      \<lparr>db = toy_store,
       issued = [(sql_insert_cliente,
                  [JStr ''Caio'', JStr ''5511'', JUndefined, JUndefined, JUndefined])]\<rparr>) \<and>
   mem_pool toy_pg sql_user_exists [JStr ''ana''] toy_store =
     (Inr \<lparr>rowCount = 1, rows = [one_row]\<rparr>, toy_store) \<and>
   signup toy_lib (mem_pool toy_pg) toy_world
       (request_of POST_signup None [(''username'', JStr ''ana'')]) toy_conn =
     (respond 400 (error_body msg_user_exists),
      \<lparr>db = toy_store, issued = [(sql_user_exists, [JStr ''ana''])]\<rparr>) \<and>
   mem_pool toy_pg sql_insert_cliente
       [JStr ''Caio'', JStr ''5511'', JUndefined, JUndefined, JUndefined] toy_store =
     (Inl (pg_error ''23505''), toy_store) \<and>
   fst (create_cliente (mem_pool toy_pg)
          (request_of POST_clientes None [(''whatsapp'', JStr ''5511''), (''nome'', JStr ''Caio'')])
          toy_conn) = respond 400 (error_body msg_whatsapp_taken)"
proof -
  have u: "users_named (db toy_conn) (prepare toy_pg (JStr ''ana'')) \<noteq> []"
    by (simp add: users_named_def prepare_def toy_conn_def toy_store_def)
  have k: "clientes_with_whatsapp (db toy_conn) (prepare toy_pg (JStr ''5511'')) \<noteq> []"
    by (simp add: clientes_with_whatsapp_def prepare_def toy_conn_def toy_store_def)
  have 1: "signup toy_lib (mem_pool toy_pg) toy_world
       (request_of POST_signup None [(''username'', JStr ''ana''), (''password'', JStr ''pw'')])
       toy_conn =
     (respond 400 (error_body msg_user_exists),
      \<lparr>db = toy_store, issued = [(sql_user_exists, [JStr ''ana''])]\<rparr>)"
    using duplicates_are_conflicts
      [where c = toy_conn and G = toy_pg and L = toy_lib and w = toy_world
         and req = "request_of POST_signup None
                      [(''username'', JStr ''ana''), (''password'', JStr ''pw'')]",
       THEN conjunct1] u
    by (simp add: request_of_def field_def toy_conn_def)
  have 2: "create_cliente (mem_pool toy_pg)
       (request_of POST_clientes None [(''nome'', JStr ''Caio''), (''whatsapp'', JStr ''5511'')])
       toy_conn =
     (respond 400 (error_body msg_whatsapp_taken),
      \<lparr>db = toy_store,
       issued = [(sql_insert_cliente,
                  [JStr ''Caio'', JStr ''5511'', JUndefined, JUndefined, JUndefined])]\<rparr>)"
    using duplicates_are_conflicts
      [where c = toy_conn and G = toy_pg
         and req = "request_of POST_clientes None
                      [(''nome'', JStr ''Caio''), (''whatsapp'', JStr ''5511'')]",
       THEN conjunct2, THEN conjunct1] k
    by (simp add: request_of_def field_def toy_conn_def)
  have 3: "signup toy_lib (mem_pool toy_pg) toy_world
       (request_of POST_signup None [(''username'', JStr ''ana'')]) toy_conn =
     (respond 400 (error_body msg_user_exists),
      \<lparr>db = toy_store, issued = [(sql_user_exists, [JStr ''ana''])]\<rparr>)"
    using duplicates_are_conflicts
      [where k = toy_conn and P = "mem_pool toy_pg" and L = toy_lib and w = toy_world
         and req = "request_of POST_signup None [(''username'', JStr ''ana'')]"
         and r = "\<lparr>rowCount = 1, rows = [one_row]\<rparr>" and d = toy_store,
       THEN conjunct2, THEN conjunct2, THEN conjunct1] toy_user_exists
    by (simp add: request_of_def field_def toy_conn_def)
  have 4: "fst (create_cliente (mem_pool toy_pg)
          (request_of POST_clientes None [(''whatsapp'', JStr ''5511''), (''nome'', JStr ''Caio'')])
          toy_conn) = respond 400 (error_body msg_whatsapp_taken)"
    using duplicates_are_conflicts
      [where k = toy_conn and P = "mem_pool toy_pg"
         and req = "request_of POST_clientes None
                      [(''whatsapp'', JStr ''5511''), (''nome'', JStr ''Caio'')]"
         and e = "pg_error ''23505''" and d = toy_store,
       THEN conjunct2, THEN conjunct2, THEN conjunct2] toy_insert_cliente_refused
    by (simp add: request_of_def field_def toy_conn_def pg_error_def)
  from u k 1 2 3 4 toy_user_exists toy_insert_cliente_refused show ?thesis by blast
qed

text \<open>
  The signup handler answers every error of its \<open>INSERT\<close> alike: its \<open>catch\<close> does not
  look at the error code, unlike the one of \<open>POST /clientes\<close>.
\<close>

lemma signup_insert_refused:
  assumes "P sql_user_exists [field (body req) ''username''] (db c) = (Inr r, d1)"
    and "rowCount r = 0"
    and "field (body req) ''password'' = JStr p"
    and "P sql_insert_user
           [field (body req) ''username'', JStr (bcrypt_hash L p (salt w)),
            field (body req) ''email''] d1 = (Inl e, d2)"
  shows "signup L P w req c =
           (respond 500 (error_body msg_signup_failed),
            \<lparr>db = d2,
             issued = issued c @
               [(sql_user_exists, [field (body req) ''username'']),
                (sql_insert_user,
                 [field (body req) ''username'', JStr (bcrypt_hash L p (salt w)),
                  field (body req) ''email''])]\<rparr>)"
  using assms by (simp add: signup_def pool_query_def bcrypt_hash_call_def Let_def)

text \<open>
  C7. A signup whose user name already exists is to be answered with a conflict, not with
  the generic 500, and must create no duplicate row; the same for a customer creation whose
  WhatsApp number exists. \<open>POST /clientes\<close> does so. The signup does so only when its
  own lookup sees the name. Here a signup of \<open>bob\<close> runs on the reference store while
  another signup of \<open>bob\<close> inserts its row right after the lookup: the user name exists
  when the handler sends its \<open>INSERT\<close>, the store refuses it with the unique violation
  \<open>23505\<close> (second equation: the statement that the handler sent, on the store as it
  was then), no second row is created, and the answer is the generic 500 with
  \<open>msg_signup_failed\<close> instead of the conflict.
\<close>

theorem signup_race_is_generic_500:
  "signup toy_lib
     (interleaved (mem_pool toy_pg) sql_insert_user [JStr ''bob'', JStr ''s$pw'', JUndefined])
     toy_world
     (request_of POST_signup None [(''username'', JStr ''bob''), (''password'', JStr ''pw'')])
     toy_conn =
   (respond 500 (error_body msg_signup_failed),
    \<lparr>db = toy_store
        \<lparr>usuarios := usuarios toy_store @
           [\<lparr>u_id = ''3'', u_username = Some ''bob'', u_password_hash = Some ''s$pw'',
             u_email = None\<rparr>],
         next_id := 4\<rparr>,
     issued =
       [(sql_user_exists, [JStr ''bob'']),
        (sql_insert_user, [JStr ''bob'', JStr ''s$pw'', JUndefined])]\<rparr>) \<and>
   mem_pool toy_pg sql_insert_user [JStr ''bob'', JStr ''s$pw'', JUndefined]
     (toy_store
        \<lparr>usuarios := usuarios toy_store @
           [\<lparr>u_id = ''3'', u_username = Some ''bob'', u_password_hash = Some ''s$pw'',
             u_email = None\<rparr>],
         next_id := 4\<rparr>) =
   (Inl (pg_error ''23505''),
    toy_store
      \<lparr>usuarios := usuarios toy_store @
         [\<lparr>u_id = ''3'', u_username = Some ''bob'', u_password_hash = Some ''s$pw'',
           u_email = None\<rparr>],
       next_id := 4\<rparr>)"
  by code_simp

section \<open>Login: claims\<close>




text \<open>
  C6 (as the code has it). When \<open>JWT_SECRET\<close> is not set or empty, no login is
  answered with a token: in either listing the response is one of the error responses.
  A login that reaches the issuing of the token (fields present, user found, password
  right) is answered 500, with the configuration error in the first listing and with the
  generic login error in the second (where \<open>jwt.sign\<close> throws). The request is answered
  like any other and leaves the revoked set as it was; nothing ends the process.
\<close>

theorem login_without_secret:
  assumes "JWT_SECRET E = None \<or> JWT_SECRET E = Some []"
  shows "fst (login_v1 L E P w req c) \<in>
           {respond 400 (error_body msg_fields_required),
            respond 401 (error_body msg_bad_credentials),
            respond 500 (error_body msg_login_failed),
            respond 500 (error_body msg_config_error)} \<and>
         fst (login_v2 L E P w req c) \<in>
           {respond 401 (error_body msg_bad_credentials),
            respond 500 (error_body msg_login_failed)} \<and>
         (truthy (field (body req) ''username'') \<and> truthy (field (body req) ''password'') \<and>
          P sql_user_login [field (body req) ''username''] (db c) = (Inr r, d) \<and>
          rows r = user # others \<and>
          bcrypt_compare_call L (field (body req) ''password'') (field user ''password_hash'') =
            Some True \<longrightarrow>
            fst (login_v1 L E P w req c) = respond 500 (error_body msg_config_error) \<and>
            fst (login_v2 L E P w req c) = respond 500 (error_body msg_login_failed)) \<and>
         (route req = POST_login \<longrightarrow>
            (\<exists>resp s'. serve v L E P s (w, req) = (resp, s') \<and>
                       revokedTokens s' = revokedTokens s))"
proof (intro conjI impI)
  show "fst (login_v1 L E P w req c) \<in>
           {respond 400 (error_body msg_fields_required),
            respond 401 (error_body msg_bad_credentials),
            respond 500 (error_body msg_login_failed),
            respond 500 (error_body msg_config_error)}"
    using assms by (rule login_v1_no_secret)
  show "fst (login_v2 L E P w req c) \<in>
           {respond 401 (error_body msg_bad_credentials),
            respond 500 (error_body msg_login_failed)}"
    using assms by (rule login_v2_no_secret)
next
  assume a: "truthy (field (body req) ''username'') \<and> truthy (field (body req) ''password'') \<and>
          P sql_user_login [field (body req) ''username''] (db c) = (Inr r, d) \<and>
          rows r = user # others \<and>
          bcrypt_compare_call L (field (body req) ''password'') (field user ''password_hash'') =
            Some True"
  show "fst (login_v1 L E P w req c) = respond 500 (error_body msg_config_error)"
    using a assms by (auto simp: login_v1_def pool_query_def)
  show "fst (login_v2 L E P w req c) = respond 500 (error_body msg_login_failed)"
    using a assms by (auto simp: login_v2_def pool_query_def jwt_sign_call_def)
next
  assume "route req = POST_login"
  then show "\<exists>resp s'. serve v L E P s (w, req) = (resp, s') \<and>
                       revokedTokens s' = revokedTokens s"
    using login_revoked [of req v L E P s w]
    by (cases "serve v L E P s (w, req)") auto
qed

theorem login_without_secret_witness:
  "fst (login_v1 toy_lib (toy_env\<lparr>JWT_SECRET := None\<rparr>) (mem_pool toy_pg) toy_world
          (request_of POST_login None
             [(''username'', JStr ''ana''), (''password'', JStr ''secret1'')])
          toy_conn) = respond 500 (error_body msg_config_error) \<and>
   fst (login_v2 toy_lib (toy_env\<lparr>JWT_SECRET := None\<rparr>) (mem_pool toy_pg) toy_world
          (request_of POST_login None
             [(''username'', JStr ''ana''), (''password'', JStr ''secret1'')])
          toy_conn) = respond 500 (error_body msg_login_failed) \<and>
   (\<exists>resp s'. serve V2 toy_lib (toy_env\<lparr>JWT_SECRET := None\<rparr>) (mem_pool toy_pg) toy_server
                 (toy_world,
                  request_of POST_login None
                    [(''username'', JStr ''ana''), (''password'', JStr ''secret1'')]) =
                 (resp, s') \<and>
               revokedTokens s' = revokedTokens toy_server)"
proof -
  let ?req = "request_of POST_login None
                [(''username'', JStr ''ana''), (''password'', JStr ''secret1'')]"
  let ?user = "[(''id'', JStr ''1''), (''password_hash'', JStr ''s$secret1'')]"
  have f: "field (body ?req) ''username'' = JStr ''ana''"
    "field (body ?req) ''password'' = JStr ''secret1''"
    by (simp_all add: request_of_def field_def)
  have h: "field ?user ''password_hash'' = JStr ''s$secret1''"
    by (simp add: field_def)
  have 0: "JWT_SECRET (toy_env\<lparr>JWT_SECRET := None\<rparr>) = None \<or>
           JWT_SECRET (toy_env\<lparr>JWT_SECRET := None\<rparr>) = Some []"
    by simp
  have 1: "truthy (field (body ?req) ''username'') \<and> truthy (field (body ?req) ''password'') \<and>
          mem_pool toy_pg sql_user_login [field (body ?req) ''username''] (db toy_conn) =
            (Inr \<lparr>rowCount = 1, rows = [?user]\<rparr>, toy_store) \<and>
          rows \<lparr>rowCount = 1, rows = [?user]\<rparr> = ?user # [] \<and>
          bcrypt_compare_call toy_lib (field (body ?req) ''password'')
            (field ?user ''password_hash'') = Some True"
    by (simp add: f h toy_login_lookup toy_conn_def bcrypt_compare_call_def toy_lib_def)
  have 2: "route ?req = POST_login"
    by (simp add: request_of_def)
  show ?thesis
    using login_without_secret
      [where E = "toy_env\<lparr>JWT_SECRET := None\<rparr>" and L = toy_lib and P = "mem_pool toy_pg"
         and w = toy_world and req = ?req and c = toy_conn
         and r = "\<lparr>rowCount = 1, rows = [?user]\<rparr>" and d = toy_store and user = ?user
         and others = "[]" and v = V2 and s = toy_server, OF 0] 1 2
    by blast
qed

text \<open>
  The claim C6 as the specification states it fails: after a login that found the secret
  missing the process goes on serving, here the status route.
\<close>

theorem login_without_secret_keeps_serving:
  "fst (serve V1 toy_lib (toy_env\<lparr>JWT_SECRET := None\<rparr>) (mem_pool toy_pg) toy_server
          (toy_world,
           request_of POST_login None
             [(''username'', JStr ''ana''), (''password'', JStr ''secret1'')])) =
     respond 500 (error_body msg_config_error) \<and>
   fst (serve V1 toy_lib (toy_env\<lparr>JWT_SECRET := None\<rparr>) (mem_pool toy_pg)
          (snd (serve V1 toy_lib (toy_env\<lparr>JWT_SECRET := None\<rparr>) (mem_pool toy_pg) toy_server
                  (toy_world,
                   request_of POST_login None
                     [(''username'', JStr ''ana''), (''password'', JStr ''secret1'')])))
          (toy_world, request_of GET_root None [])) =
     respond 200
       (JObj [(''status'', JStr ''online''), (''database'', JStr ''neondb''),
              (''user'', JStr ''app''), (''time'', JStr ''2024-01-01T00:00:00.000Z''),
              (''neon'', JBool True)])"
  by code_simp

text \<open>
  C8. A login without the user name or without the password is to be answered 400. The
  first listing does so (lemma \<open>login_v1_missing_fields\<close>). The second listing has no such
  check: on the store with the user \<open>ana\<close>, a login with an empty body is answered 401
  and a login with the user name alone is answered 500.
\<close>

theorem login_v2_missing_fields:
  "fst (login_v2 toy_lib toy_env (mem_pool toy_pg) toy_world (request_of POST_login None [])
          toy_conn) = respond 401 (error_body msg_bad_credentials) \<and>
   fst (login_v2 toy_lib toy_env (mem_pool toy_pg) toy_world
          (request_of POST_login None [(''username'', JStr ''ana'')]) toy_conn) =
     respond 500 (error_body msg_login_failed)"
  by (simp add: login_v2_def pool_query_def mem_pool_user_login request_of_def field_def
      users_named_def prepare_def toy_conn_def toy_store_def result_of_def nullable_def
      bcrypt_compare_call_def)

end
